theory Spec2Isabelle
  imports Main "HOL-Library.Sublist"
begin

section \<open>Configuration values and Python exceptions\<close>

text \<open>
  The configuration handed to \<open>train.py\<close> is a nested Python mapping read from a
  configuration file. Its values are the usual scalars, lists and string-keyed
  dictionaries. A dictionary is an association list; a lookup takes the first entry
  with the key. A float is carried around but its arithmetic is not modelled here:
  the two places of the source that compute with a configuration number take the
  float result from the runtime record below.
\<close>

datatype pyfloat = Finite int int | Infinity bool | NaN

datatype pyval =
    PNone
  | PBool bool
  | PInt int
  | PFloat pyfloat
  | PStr string
  | PList "pyval list"
  | PDict "(string \<times> pyval) list"

datatype py_error =
    KeyError string
  | TypeError
  | IndexError
  | ValueError string
  | FileExistsError
  | FileNotFoundError
  | OtherError string

subsection \<open>Strings\<close>

text \<open>\<open>s.split(c)\<close> for a one-character separator: never empty, \<open>''''.split(c) = ['''']\<close>.\<close>

fun split_on :: "char \<Rightarrow> string \<Rightarrow> string list" where
  "split_on c [] = [[]]"
| "split_on c (x # xs) =
     (if x = c then [] # split_on c xs
      else (case split_on c xs of
              [] \<Rightarrow> [[x]]
            | y # ys \<Rightarrow> (x # y) # ys))"

definition dquote :: string where
  "dquote = [char_of (34::nat)]"

subsection \<open>Subscripting\<close>

text \<open>
  \<open>val[key]\<close> with a string key: a dictionary raises \<open>KeyError\<close> for an absent key;
  a string or a list raises \<open>TypeError\<close> (their indices must be integers); every other
  value is not subscriptable and raises \<open>TypeError\<close>.
\<close>

fun getitem :: "pyval \<Rightarrow> string \<Rightarrow> py_error + pyval" where
  "getitem (PDict d) key =
     (case map_of d key of None \<Rightarrow> Inl (KeyError key) | Some v \<Rightarrow> Inr v)"
| "getitem _ key = Inl TypeError"

section \<open>\<open>check_params\<close>\<close>

text \<open>The inner loop of lines 25-27: \<open>val = params; for key in ...: val = val[key]\<close>.\<close>

fun lookup_keys :: "pyval \<Rightarrow> string list \<Rightarrow> py_error + pyval" where
  "lookup_keys val [] = Inr val"
| "lookup_keys val (key # keys) =
     (case getitem val key of
        Inl e \<Rightarrow> Inl e
      | Inr v \<Rightarrow> lookup_keys v keys)"

definition not_supplied :: "string \<Rightarrow> string" where
  "not_supplied param = ''Expected parameter '' @ dquote @ param @ dquote @ '' not supplied.''"

text \<open>
  Lines 23-29. The handler catches \<open>KeyError\<close> and \<open>TypeError\<close> only; any other
  exception of the body would leave the function as it is.
\<close>

fun check_params :: "pyval \<Rightarrow> string list \<Rightarrow> py_error + unit" where
  "check_params params [] = Inr ()"
| "check_params params (param # param_list) =
     (case lookup_keys params (split_on CHR ''.'' param) of
        Inl (KeyError k) \<Rightarrow> Inl (ValueError (not_supplied param))
      | Inl TypeError \<Rightarrow> Inl (ValueError (not_supplied param))
      | Inl e \<Rightarrow> Inl e
      | Inr v \<Rightarrow> check_params params param_list)"

text \<open>
  The same function with the configuration object threaded through as a store, to
  state what the call does to it. Subscripting reads the mapping and gives the store
  back as it found it; the body has no assignment into \<open>params\<close>.
\<close>

definition getitem_st :: "pyval \<Rightarrow> string \<Rightarrow> pyval \<Rightarrow> (py_error + pyval) \<times> pyval" where
  "getitem_st val key store = (getitem val key, store)"

fun lookup_keys_st :: "pyval \<Rightarrow> string list \<Rightarrow> pyval \<Rightarrow> (py_error + pyval) \<times> pyval" where
  "lookup_keys_st val [] store = (Inr val, store)"
| "lookup_keys_st val (key # keys) store =
     (case getitem_st val key store of
        (Inl e, store') \<Rightarrow> (Inl e, store')
      | (Inr v, store') \<Rightarrow> lookup_keys_st v keys store')"

fun check_params_st :: "string list \<Rightarrow> pyval \<Rightarrow> (py_error + unit) \<times> pyval" where
  "check_params_st [] store = (Inr (), store)"
| "check_params_st (param # param_list) store =
     (case lookup_keys_st store (split_on CHR ''.'' param) store of
        (Inl (KeyError k), store') \<Rightarrow> (Inl (ValueError (not_supplied param)), store')
      | (Inl TypeError, store') \<Rightarrow> (Inl (ValueError (not_supplied param)), store')
      | (Inl e, store') \<Rightarrow> (Inl e, store')
      | (Inr v, store') \<Rightarrow> check_params_st param_list store')"

text \<open>
  What the specification calls a path that resolves: every key of the path is present
  in the mapping reached so far.
\<close>

fun path_resolves :: "pyval \<Rightarrow> string list \<Rightarrow> bool" where
  "path_resolves val [] = True"
| "path_resolves val (key # keys) =
     (case val of
        PDict d \<Rightarrow> (case map_of d key of None \<Rightarrow> False | Some v \<Rightarrow> path_resolves v keys)
      | _ \<Rightarrow> False)"

definition missing :: "pyval \<Rightarrow> string \<Rightarrow> bool" where
  "missing params param = (\<not> path_resolves params (split_on CHR ''.'' param))"

section \<open>Python operations used by the builder\<close>

text \<open>\<open>len(v)\<close>: defined on strings, lists and dictionaries, \<open>TypeError\<close> elsewhere.\<close>

fun py_len :: "pyval \<Rightarrow> py_error + nat" where
  "py_len (PStr s) = Inr (length s)"
| "py_len (PList xs) = Inr (length xs)"
| "py_len (PDict d) = Inr (length d)"
| "py_len _ = Inl TypeError"

text \<open>The truth value of \<open>if v:\<close>.\<close>

fun py_truthy :: "pyval \<Rightarrow> bool" where
  "py_truthy PNone = False"
| "py_truthy (PBool b) = b"
| "py_truthy (PInt i) = (i \<noteq> 0)"
| "py_truthy (PFloat f) = (case f of Finite m e \<Rightarrow> m \<noteq> 0 | _ \<Rightarrow> True)"
| "py_truthy (PStr s) = (s \<noteq> [])"
| "py_truthy (PList xs) = (xs \<noteq> [])"
| "py_truthy (PDict d) = (d \<noteq> [])"

text \<open>\<open>str(i)\<close> of an integer, in decimal.\<close>

definition digit_char :: "nat \<Rightarrow> char" where
  "digit_char d = char_of (48 + d)"

function str_nat :: "nat \<Rightarrow> string" where
  "str_nat n = (if n < 10 then [digit_char n] else str_nat (n div 10) @ [digit_char (n mod 10)])"
  by pat_completeness auto
termination
  by (relation "measure id") auto

definition py_str_int :: "int \<Rightarrow> string" where
  "py_str_int i = (if i < 0 then CHR ''-'' # str_nat (nat (- i)) else str_nat (nat i))"

text \<open>
  \<open>v[i]\<close> with an integer index: a negative index counts from the end, an index out
  of range raises \<open>IndexError\<close>; a string-keyed dictionary has no integer key.
\<close>

definition norm_index :: "nat \<Rightarrow> int \<Rightarrow> nat option" where
  "norm_index n i =
     (let j = (if i < 0 then int n + i else i)
      in if 0 \<le> j \<and> j < int n then Some (nat j) else None)"

fun py_index :: "pyval \<Rightarrow> int \<Rightarrow> py_error + pyval" where
  "py_index (PList xs) i =
     (case norm_index (length xs) i of None \<Rightarrow> Inl IndexError | Some j \<Rightarrow> Inr (xs ! j))"
| "py_index (PStr s) i =
     (case norm_index (length s) i of None \<Rightarrow> Inl IndexError | Some j \<Rightarrow> Inr (PStr [s ! j]))"
| "py_index (PDict d) i = Inl (KeyError (py_str_int i))"
| "py_index _ i = Inl TypeError"

subsection \<open>Calls into the framework\<close>

text \<open>
  Every call the file makes into the operating system, the tensor library, the data
  loader, the network and the training framework is an event, recorded with the
  arguments the file computed for it.
\<close>

datatype callback = SaveModelCallback string string

datatype event =
    EnvironSet string string
  | MakeDirs string
  | CudaGetDeviceName pyval
  | TorchDevice pyval
  | CudaSetDevice pyval
  | InitProcessGroup string nat int string
  | NewDataLoader string string string string pyval pyval pyval pyval pyval pyval bool
  | NewPervasive pyval "pyval list"
  | InitWeights
  | ModelCuda pyval
  | NewDistributedDataParallel pyval
  | NewDataBunch pyval
  | NewLearner string
  | LearnerLoad string string
  | Print string
  | SetCallbacks "callback list"
  | FitOneCycle pyval pyval pyval "int option"

text \<open>
  What the file cannot see: whether CUDA is there, which calls into the framework
  raise (and what), the text of a value whose \<open>str\<close> is not modelled, float
  arithmetic, and what the built-in \<open>int\<close> makes of a string: \<open>parse_int s\<close> is
  \<open>Some n\<close> when \<open>int(s)\<close> returns \<open>n\<close> and \<open>None\<close> when it raises.
\<close>

record runtime =
  cuda_is_available :: bool
  raises :: "event \<Rightarrow> py_error option"
  format_value :: "pyval \<Rightarrow> string"
  float_floordiv :: "pyfloat \<Rightarrow> int \<Rightarrow> pyfloat"
  float_add :: "pyfloat \<Rightarrow> int \<Rightarrow> pyfloat"
  parse_int :: "string \<Rightarrow> int option"

text \<open>
  \<open>f'{v}'\<close>: the text of a value. The text of a float, a list or a dictionary is taken
  from the runtime.
\<close>

fun py_format :: "runtime \<Rightarrow> pyval \<Rightarrow> string" where
  "py_format rt (PStr s) = s"
| "py_format rt (PInt i) = py_str_int i"
| "py_format rt PNone = ''None''"
| "py_format rt (PBool b) = (if b then ''True'' else ''False'')"
| "py_format rt v = format_value rt v"

text \<open>\<open>v // n\<close> and \<open>v + n\<close> for an integer \<open>n\<close>; a \<open>bool\<close> is an integer in Python.\<close>

fun py_floordiv :: "runtime \<Rightarrow> pyval \<Rightarrow> int \<Rightarrow> py_error + pyval" where
  "py_floordiv rt (PInt a) n = Inr (PInt (a div n))"
| "py_floordiv rt (PBool b) n = Inr (PInt ((if b then 1 else 0) div n))"
| "py_floordiv rt (PFloat f) n = Inr (PFloat (float_floordiv rt f n))"
| "py_floordiv rt _ n = Inl TypeError"

fun py_add :: "runtime \<Rightarrow> pyval \<Rightarrow> int \<Rightarrow> py_error + pyval" where
  "py_add rt (PInt a) n = Inr (PInt (a + n))"
| "py_add rt (PBool b) n = Inr (PInt ((if b then 1 else 0) + n))"
| "py_add rt (PFloat f) n = Inr (PFloat (float_add rt f n))"
| "py_add rt _ n = Inl TypeError"

text \<open>
  \<open>os.path.join\<close> on POSIX: an absolute component discards what came before it; a
  component that is not a string raises \<open>TypeError\<close>.
\<close>

definition join2 :: "string \<Rightarrow> string \<Rightarrow> string" where
  "join2 path b =
     (if b \<noteq> [] \<and> hd b = CHR ''/'' then b
      else if path = [] \<or> last path = CHR ''/'' then path @ b
      else path @ ''/'' @ b)"

fun join_all :: "string \<Rightarrow> pyval list \<Rightarrow> py_error + string" where
  "join_all path [] = Inr path"
| "join_all path (PStr b # bs) = join_all (join2 path b) bs"
| "join_all path (_ # bs) = Inl TypeError"

fun os_path_join :: "pyval \<Rightarrow> pyval list \<Rightarrow> py_error + string" where
  "os_path_join (PStr a) bs = join_all a bs"
| "os_path_join _ bs = Inl TypeError"

section \<open>Computations that call the framework\<close>

text \<open>
  A computation is its outcome together with the calls it made, in order; a call
  that raises is recorded too.
\<close>

type_synonym 'a io = "(py_error + 'a) \<times> event list"

definition io_return :: "'a \<Rightarrow> 'a io" where
  "io_return x = (Inr x, [])"

definition io_raise :: "py_error \<Rightarrow> 'a io" where
  "io_raise e = (Inl e, [])"

definition io_lift :: "py_error + 'a \<Rightarrow> 'a io" where
  "io_lift r = (r, [])"

definition io_bind :: "'a io \<Rightarrow> ('a \<Rightarrow> 'b io) \<Rightarrow> 'b io" where
  "io_bind m f =
     (case m of
        (Inl e, evs) \<Rightarrow> (Inl e, evs)
      | (Inr x, evs) \<Rightarrow> (case f x of (r, evs') \<Rightarrow> (r, evs @ evs')))"

definition io_call :: "runtime \<Rightarrow> event \<Rightarrow> unit io" where
  "io_call rt ev = (case raises rt ev of None \<Rightarrow> (Inr (), [ev]) | Some e \<Rightarrow> (Inl e, [ev]))"

definition io_emit :: "event \<Rightarrow> unit io" where
  "io_emit ev = (Inr (), [ev])"

section \<open>\<open>build_learner\<close>\<close>

text \<open>
  Lines 39-45: the directory for saved models. \<open>os.makedirs\<close> raising
  \<open>FileExistsError\<close> is caught; anything else it raises leaves the function.
\<close>

definition makedirs :: "runtime \<Rightarrow> string \<Rightarrow> unit io" where
  "makedirs rt model_dir =
     (case io_call rt (MakeDirs model_dir) of
        (Inl FileExistsError, evs) \<Rightarrow> (Inr (), evs)
      | r \<Rightarrow> r)"

definition model_directory :: "runtime \<Rightarrow> pyval \<Rightarrow> string \<Rightarrow> (pyval \<times> string) io" where
  "model_directory rt params project_dir =
     io_bind (io_lift (getitem params ''model_name'')) (\<lambda>model_name.
     io_bind (io_lift (os_path_join (PStr project_dir) [PStr ''model'', model_name])) (\<lambda>model_dir.
     io_bind (makedirs rt model_dir) (\<lambda>_.
     io_return (model_name, model_dir))))"

text \<open>
  Lines 48-59: the world size and the device of this worker. The result is
  \<open>(world_size, distributed, device_id, device)\<close>; \<open>device_name\<close> is not used again.
\<close>

definition select_device :: "runtime \<Rightarrow> pyval \<Rightarrow> int \<Rightarrow> (nat \<times> bool \<times> pyval \<times> pyval) io" where
  "select_device rt params pindex =
     io_bind (io_lift (getitem params ''gpu_ids'')) (\<lambda>gpu_ids.
     io_bind (io_lift (py_len gpu_ids)) (\<lambda>n.
       let world_size = (if n > 0 then n else 1);
           distributed = (world_size > 1)
       in if py_truthy gpu_ids then
            io_bind (io_lift (py_index gpu_ids pindex)) (\<lambda>device_id.
            io_bind (io_call rt (CudaGetDeviceName device_id)) (\<lambda>_.
            io_bind (io_call rt (TorchDevice device_id)) (\<lambda>_.
            io_bind (io_call rt (CudaSetDevice device_id)) (\<lambda>_.
            io_return (world_size, distributed, device_id, device_id)))))
          else
            io_bind (io_call rt (TorchDevice (PStr ''cpu''))) (\<lambda>_.
            io_return (world_size, distributed, PNone, PStr ''cpu''))))"

text \<open>Lines 62-66. \<open>f'file://{comm_file}'\<close> of \<open>None\<close> is \<open>file://None\<close>.\<close>

definition init_method :: "string option \<Rightarrow> string" where
  "init_method comm_file =
     ''file://'' @ (case comm_file of None \<Rightarrow> ''None'' | Some f \<Rightarrow> f)"

definition init_distributed :: "runtime \<Rightarrow> bool \<Rightarrow> nat \<Rightarrow> int \<Rightarrow> string option \<Rightarrow> unit io" where
  "init_distributed rt distributed world_size pindex comm_file =
     (if distributed
      then io_call rt (InitProcessGroup ''nccl'' world_size pindex (init_method comm_file))
      else io_return ())"

text \<open>Lines 69-97: the data loader.\<close>

definition data_params :: "string list" where
  "data_params =
     [''data.batch_size'', ''data.dir'', ''data.epoch_size'', ''data.max_length'',
      ''data.max_test_size'', ''data.max_val_size'', ''data.src'', ''data.tgt'']"

definition load_data :: "runtime \<Rightarrow> pyval \<Rightarrow> pyval \<Rightarrow> nat \<Rightarrow> bool \<Rightarrow> unit io" where
  "load_data rt params model_name world_size distributed =
     io_bind (io_lift (check_params params data_params)) (\<lambda>_.
     io_bind (io_lift (lookup_keys params [''data'', ''batch_size''])) (\<lambda>configured.
     io_bind (io_lift (py_floordiv rt configured (int world_size))) (\<lambda>batch_size.
     io_bind (io_lift (lookup_keys params [''data'', ''dir''])) (\<lambda>data_dir.
     io_bind (io_lift (lookup_keys params [''data'', ''src''])) (\<lambda>src_l.
     io_bind (io_lift (lookup_keys params [''data'', ''tgt''])) (\<lambda>tgt_l.
     io_bind (io_lift (os_path_join data_dir [PStr (py_format rt src_l @ ''.infos'')])) (\<lambda>src_infos.
     io_bind (io_lift (os_path_join data_dir [PStr (py_format rt tgt_l @ ''.infos'')])) (\<lambda>tgt_infos.
     io_bind (io_lift (os_path_join data_dir [PStr (py_format rt src_l @ ''.h5'')])) (\<lambda>src_h5.
     io_bind (io_lift (os_path_join data_dir [PStr (py_format rt tgt_l @ ''.h5'')])) (\<lambda>tgt_h5.
     io_bind (io_lift (lookup_keys params [''data'', ''max_length''])) (\<lambda>max_length.
     io_bind (io_lift (lookup_keys params [''data'', ''epoch_size''])) (\<lambda>epoch_size.
     io_bind (io_lift (lookup_keys params [''data'', ''max_val_size''])) (\<lambda>max_val_size.
     io_bind (io_lift (lookup_keys params [''data'', ''max_test_size''])) (\<lambda>max_test_size.
     io_call rt (NewDataLoader src_infos src_h5 tgt_infos tgt_h5 batch_size max_length
                   model_name epoch_size max_val_size max_test_size distributed)))))))))))))))"

text \<open>
  Lines 99-131: the network. The message of line 128 is not an f-string in the
  source, so the braces stay in it.
\<close>

definition network_params :: "string list" where
  "network_params =
     [''decoder.embedding_dim'', ''decoder.embedding_dropout'', ''decoder.prediction_dropout'',
      ''encoder.embedding_dim'', ''encoder.embedding_dropout'', ''network.bias'',
      ''network.block_sizes'', ''network.division_factor'', ''network.dropout'',
      ''network.efficient'', ''network.growth_rate'']"

definition no_gpu_found :: string where
  "no_gpu_found = ''Request to train on GPU {device_id}, but not GPU found.''"

definition move_to_device :: "runtime \<Rightarrow> pyval \<Rightarrow> bool \<Rightarrow> unit io" where
  "move_to_device rt device_id distributed =
     (if device_id \<noteq> PNone then
        if \<not> cuda_is_available rt then io_raise (ValueError no_gpu_found)
        else
          io_bind (io_call rt (ModelCuda device_id)) (\<lambda>_.
          if distributed then io_call rt (NewDistributedDataParallel device_id)
          else io_return ())
      else io_return ())"

definition define_network :: "runtime \<Rightarrow> pyval \<Rightarrow> pyval \<Rightarrow> pyval \<Rightarrow> bool \<Rightarrow> unit io" where
  "define_network rt params model_name device_id distributed =
     io_bind (io_lift (check_params params network_params)) (\<lambda>_.
     io_bind (io_lift (lookup_keys params [''network'', ''block_sizes''])) (\<lambda>block_sizes.
     io_bind (io_lift (lookup_keys params [''data'', ''max_length''])) (\<lambda>max_length.
     io_bind (io_lift (py_add rt max_length 2)) (\<lambda>max_source.
     io_bind (io_lift (lookup_keys params [''data'', ''max_length''])) (\<lambda>max_length'.
     io_bind (io_lift (py_add rt max_length' 2)) (\<lambda>max_target.
     io_bind (io_lift (lookup_keys params [''encoder'', ''embedding_dim''])) (\<lambda>enc_dim.
     io_bind (io_lift (lookup_keys params [''decoder'', ''embedding_dim''])) (\<lambda>dec_dim.
     io_bind (io_lift (lookup_keys params [''encoder'', ''embedding_dropout''])) (\<lambda>enc_dropout.
     io_bind (io_lift (lookup_keys params [''network'', ''dropout''])) (\<lambda>dropout.
     io_bind (io_lift (lookup_keys params [''decoder'', ''embedding_dropout''])) (\<lambda>dec_dropout.
     io_bind (io_lift (lookup_keys params [''decoder'', ''prediction_dropout''])) (\<lambda>pred_dropout.
     io_bind (io_lift (lookup_keys params [''network'', ''division_factor''])) (\<lambda>division_factor.
     io_bind (io_lift (lookup_keys params [''network'', ''growth_rate''])) (\<lambda>growth_rate.
     io_bind (io_lift (lookup_keys params [''network'', ''bias''])) (\<lambda>bias.
     io_bind (io_lift (lookup_keys params [''network'', ''efficient''])) (\<lambda>efficient.
     io_bind (io_call rt (NewPervasive model_name
                [block_sizes, max_source, max_target, enc_dim, dec_dim, enc_dropout, dropout,
                 dec_dropout, pred_dropout, division_factor, growth_rate, bias, efficient])) (\<lambda>_.
     io_bind (io_call rt InitWeights) (\<lambda>_.
     move_to_device rt device_id distributed))))))))))))))))))"

text \<open>The learner, as far as this file uses it: the directory it loads from and saves to.\<close>

datatype learner = Learner string

fun model_dir_of :: "learner \<Rightarrow> string" where
  "model_dir_of (Learner model_dir) = model_dir"

text \<open>Lines 39-66: everything before the data is loaded.\<close>

definition configure ::
  "runtime \<Rightarrow> pyval \<Rightarrow> string \<Rightarrow> int \<Rightarrow> string option \<Rightarrow>
   (pyval \<times> string \<times> nat \<times> bool \<times> pyval \<times> pyval) io" where
  "configure rt params project_dir pindex comm_file =
     io_bind (model_directory rt params project_dir) (\<lambda>(model_name, model_dir).
     io_bind (select_device rt params pindex) (\<lambda>(world_size, distributed, device_id, device).
     io_bind (init_distributed rt distributed world_size pindex comm_file) (\<lambda>_.
     io_return (model_name, model_dir, world_size, distributed, device_id, device))))"

text \<open>Lines 68-136: the loader, the network, the data bunch and the learner.\<close>

definition construct ::
  "runtime \<Rightarrow> pyval \<Rightarrow> pyval \<Rightarrow> string \<Rightarrow> nat \<Rightarrow> bool \<Rightarrow> pyval \<Rightarrow> pyval \<Rightarrow> learner io" where
  "construct rt params model_name model_dir world_size distributed device_id device =
     io_bind (load_data rt params model_name world_size distributed) (\<lambda>_.
     io_bind (define_network rt params model_name device_id distributed) (\<lambda>_.
     io_bind (io_call rt (NewDataBunch device)) (\<lambda>_.
     io_bind (io_call rt (NewLearner model_dir)) (\<lambda>_.
     io_return (Learner model_dir)))))"

definition build_learner :: "runtime \<Rightarrow> pyval \<Rightarrow> string \<Rightarrow> int \<Rightarrow> string option \<Rightarrow> learner io" where
  "build_learner rt params project_dir pindex comm_file =
     io_bind (configure rt params project_dir pindex comm_file)
       (\<lambda>(model_name, model_dir, world_size, distributed, device_id, device).
          construct rt params model_name model_dir world_size distributed device_id device)"

section \<open>\<open>train_worker\<close>\<close>

text \<open>\<open>xs[-1]\<close> of a Python list.\<close>

definition last_item :: "'a list \<Rightarrow> py_error + 'a" where
  "last_item xs = (if xs = [] then Inl IndexError else Inr (last xs))"

text \<open>
  Lines 168-169: \<open>restore[-4:]\<close> is the last four characters (the whole string when
  it is shorter), \<open>restore[:-4]\<close> is the string without them. A string is its UTF-8
  bytes here; the characters the source compares with and splits at (\<open>.pth\<close>, \<open>/\<close>,
  \<open>_\<close>) are ASCII, which occur in UTF-8 only as themselves.
\<close>

definition strip_pth :: "string \<Rightarrow> string" where
  "strip_pth restore =
     (if drop (length restore - 4) restore = ''.pth''
      then take (length restore - 4) restore
      else restore)"

text \<open>
  Lines 166-179. The result is \<open>None\<close> where the source returns from
  \<open>train_worker\<close> in the handler, and the name that was loaded otherwise.
\<close>

definition not_found_message :: "string \<Rightarrow> string \<Rightarrow> string" where
  "not_found_message model_dir restore =
     ''The model file '' @ model_dir @ ''/'' @ restore @ ''.pth was not found!''"

definition restore_model :: "runtime \<Rightarrow> int \<Rightarrow> learner \<Rightarrow> string \<Rightarrow> string option io" where
  "restore_model rt pindex learn restore0 =
     (let restore = strip_pth restore0
      in case io_call rt (LearnerLoad (model_dir_of learn) restore) of
           (Inl FileNotFoundError, evs) \<Rightarrow>
             (Inr None,
              evs @ (if pindex = 0 then [Print (not_found_message (model_dir_of learn) restore)]
                     else []))
         | (Inl e, evs) \<Rightarrow> (Inl e, evs)
         | (Inr _, evs) \<Rightarrow>
             (Inr (Some restore),
              evs @ (if pindex = 0 then [Print (''Loaded model '' @ restore @ ''.'')] else [])))"

text \<open>Lines 180-185; the bare \<open>except\<close> swallows the failure of \<open>int\<close>.\<close>

definition resume_epoch :: "runtime \<Rightarrow> string \<Rightarrow> py_error + int option" where
  "resume_epoch rt restore =
     (case last_item (split_on CHR ''/'' restore) of
        Inl e \<Rightarrow> Inl e
      | Inr name \<Rightarrow>
          (let fields = split_on CHR ''_'' name
           in if length fields > 1
              then (case parse_int rt (fields ! 1) of
                      Some n \<Rightarrow> Inr (Some (n + 1))
                    | None \<Rightarrow> Inr None)
              else Inr None))"

text \<open>Lines 188-198.\<close>

definition optim_params :: "string list" where
  "optim_params = [''optim.epochs'', ''optim.lr'']"

definition fit :: "runtime \<Rightarrow> pyval \<Rightarrow> int option \<Rightarrow> unit io" where
  "fit rt params epoch =
     io_bind (io_call rt (SetCallbacks [SaveModelCallback ''epoch'' ''model''])) (\<lambda>_.
     io_bind (io_lift (check_params params optim_params)) (\<lambda>_.
     io_bind (io_lift (lookup_keys params [''optim'', ''epochs''])) (\<lambda>epochs.
     io_bind (io_lift (lookup_keys params [''optim'', ''lr''])) (\<lambda>lr.
     io_bind (io_lift (lookup_keys params [''optim'', ''epochs''])) (\<lambda>tot_epochs.
     io_call rt (FitOneCycle epochs lr tot_epochs epoch))))))"

text \<open>
  Lines 158-159: \<open>RANK\<close> is set when it is unset or empty. \<open>getenv_rank\<close> is the value
  of the variable when the worker starts.
\<close>

definition set_rank :: "string option \<Rightarrow> int \<Rightarrow> unit io" where
  "set_rank getenv_rank pindex =
     (if getenv_rank = None \<or> getenv_rank = Some []
      then io_emit (EnvironSet ''RANK'' (py_str_int pindex))
      else io_return ())"

text \<open>Lines 164-198: what \<open>train_worker\<close> does with the learner it built.\<close>

definition restore_and_fit ::
  "runtime \<Rightarrow> int \<Rightarrow> pyval \<Rightarrow> learner \<Rightarrow> string option \<Rightarrow> unit io" where
  "restore_and_fit rt pindex params learn restore =
     (case restore of
        None \<Rightarrow> fit rt params None
      | Some restore0 \<Rightarrow>
          io_bind (restore_model rt pindex learn restore0) (\<lambda>loaded.
            case loaded of
              None \<Rightarrow> io_return ()
            | Some restore \<Rightarrow>
                io_bind (io_lift (resume_epoch rt restore)) (\<lambda>epoch.
                fit rt params epoch)))"

text \<open>The parameter \<open>checkpoint\<close> is in the signature of the source and nowhere in its body.\<close>

definition train_worker ::
  "runtime \<Rightarrow> string option \<Rightarrow> int \<Rightarrow> string \<Rightarrow> pyval \<Rightarrow> string option \<Rightarrow> pyval \<Rightarrow>
   string option \<Rightarrow> unit io" where
  "train_worker rt getenv_rank pindex project_dir params comm_file checkpoint restore =
     io_bind (set_rank getenv_rank pindex) (\<lambda>_.
     io_bind (build_learner rt params project_dir pindex comm_file) (\<lambda>learn.
     restore_and_fit rt pindex params learn restore))"

section \<open>Reading a run\<close>

text \<open>The kinds of calls that the properties below single out in the record of a run.\<close>

fun is_init_process_group :: "event \<Rightarrow> bool" where
  "is_init_process_group (InitProcessGroup backend world_size rank method) = True"
| "is_init_process_group _ = False"

fun is_new_data_loader :: "event \<Rightarrow> bool" where
  "is_new_data_loader (NewDataLoader a b c d e f g h i j k) = True"
| "is_new_data_loader _ = False"

fun is_new_pervasive :: "event \<Rightarrow> bool" where
  "is_new_pervasive (NewPervasive name args) = True"
| "is_new_pervasive _ = False"

fun is_learner_load :: "event \<Rightarrow> bool" where
  "is_learner_load (LearnerLoad model_dir name) = True"
| "is_learner_load _ = False"

fun is_set_callbacks :: "event \<Rightarrow> bool" where
  "is_set_callbacks (SetCallbacks cs) = True"
| "is_set_callbacks _ = False"

fun is_fit_one_cycle :: "event \<Rightarrow> bool" where
  "is_fit_one_cycle (FitOneCycle epochs lr tot_epochs start_epoch) = True"
| "is_fit_one_cycle _ = False"

text \<open>The batch sizes handed to the data loader in a run.\<close>

fun batch_sizes :: "event list \<Rightarrow> pyval list" where
  "batch_sizes [] = []"
| "batch_sizes (NewDataLoader si sh ti th batch_size ml mn es mv mt d # evs) =
     batch_size # batch_sizes evs"
| "batch_sizes (_ # evs) = batch_sizes evs"

text \<open>The start epochs handed to \<open>fit_one_cycle\<close> in a run.\<close>

fun start_epochs :: "event list \<Rightarrow> int option list" where
  "start_epochs [] = []"
| "start_epochs (FitOneCycle epochs lr tot_epochs start_epoch # evs) =
     start_epoch # start_epochs evs"
| "start_epochs (_ # evs) = start_epochs evs"

text \<open>
  The number of entries of \<open>params['gpu_ids']\<close> (0 when there is no such sized value),
  and the world size of line 49.
\<close>

definition gpu_count :: "pyval \<Rightarrow> nat" where
  "gpu_count params =
     (case getitem params ''gpu_ids'' of
        Inl e \<Rightarrow> 0
      | Inr gpu_ids \<Rightarrow> (case py_len gpu_ids of Inl e \<Rightarrow> 0 | Inr n \<Rightarrow> n))"

definition world_size_of :: "pyval \<Rightarrow> nat" where
  "world_size_of params = (if gpu_count params > 0 then gpu_count params else 1)"

text \<open>A call gets as far as line 62 when lines 39-45 and lines 48-59 did not raise.\<close>

definition reaches_init :: "runtime \<Rightarrow> pyval \<Rightarrow> string \<Rightarrow> int \<Rightarrow> bool" where
  "reaches_init rt params project_dir pindex =
     (\<not> isl (fst (model_directory rt params project_dir)) \<and>
      \<not> isl (fst (select_device rt params pindex)))"

text \<open>The value of \<open>epoch\<close> at line 198.\<close>

definition start_epoch :: "runtime \<Rightarrow> string option \<Rightarrow> int option" where
  "start_epoch rt restore =
     (case restore of
        None \<Rightarrow> None
      | Some restore0 \<Rightarrow>
          (case resume_epoch rt (strip_pth restore0) of Inl e \<Rightarrow> None | Inr epoch \<Rightarrow> epoch))"

text \<open>
  The resume epoch in the words of the specification: drop a trailing \<open>.pth\<close>, take the
  last path component, split it at underscores; with at least two fields of which the
  second is an integer \<open>n\<close> the epoch is \<open>n + 1\<close>, otherwise there is none. A field
  is an integer \<open>n\<close> when \<open>int\<close> of the runtime returns \<open>n\<close> for it.
\<close>

definition spec_strip_pth :: "string \<Rightarrow> string" where
  "spec_strip_pth restore =
     (if suffix ''.pth'' restore then take (length restore - 4) restore else restore)"

definition spec_start_epoch :: "runtime \<Rightarrow> string \<Rightarrow> int option" where
  "spec_start_epoch rt restore =
     (let fields = split_on CHR ''_'' (last (split_on CHR ''/'' (spec_strip_pth restore)))
      in if 2 \<le> length fields
         then (case parse_int rt (fields ! 1) of None \<Rightarrow> None | Some n \<Rightarrow> Some (n + 1))
         else None)"

text \<open>
  The top-level keys of the configuration that the file reads, and two configurations
  that agree on them.
\<close>

definition groups :: "string list" where
  "groups = [''data'', ''encoder'', ''decoder'', ''network'', ''optim'', ''gpu_ids'', ''model_name'']"

definition same_groups :: "pyval \<Rightarrow> pyval \<Rightarrow> bool" where
  "same_groups params params' = list_all (\<lambda>k. getitem params k = getitem params' k) groups"

section \<open>Sample inputs\<close>

text \<open>
  The \<open>int\<close> of the sample runtimes: a non-empty string of ASCII digits is read in
  decimal, as Python reads it, and no other string is parsed. The samples hand it
  digit strings and the word \<open>best\<close> only.
\<close>

definition is_digit :: "char \<Rightarrow> bool" where
  "is_digit c = (48 \<le> (of_char c :: nat) \<and> (of_char c :: nat) \<le> 57)"

definition digits_value :: "string \<Rightarrow> nat" where
  "digits_value ds = foldl (\<lambda>a c. 10 * a + (of_char c - 48)) 0 ds"

definition sample_int :: "string \<Rightarrow> int option" where
  "sample_int s =
     (if s \<noteq> [] \<and> list_all is_digit s then Some (int (digits_value s)) else None)"

text \<open>
  A runtime with CUDA in which no call raises, one without CUDA, and one in which no
  checkpoint file exists, so that every \<open>load\<close> raises.
\<close>

definition plain_runtime :: runtime where
  "plain_runtime =
     \<lparr>cuda_is_available = True, raises = (\<lambda>ev. None), format_value = (\<lambda>v. ''?''),
      float_floordiv = (\<lambda>f n. f), float_add = (\<lambda>f n. f), parse_int = sample_int\<rparr>"


definition no_checkpoint_runtime :: runtime where
  "no_checkpoint_runtime =
     plain_runtime\<lparr>raises := (\<lambda>ev. if is_learner_load ev then Some FileNotFoundError else None)\<rparr>"

text \<open>A fragment of a configuration, for \<open>check_params\<close> alone.\<close>

definition sample_config :: pyval where
  "sample_config = PDict [(''data'', PDict [(''dir'', PStr ''corpus''), (''src'', PInt 3)])]"

text \<open>A complete configuration, with the GPU ids and the batch size left open.\<close>

definition config_of :: "pyval \<Rightarrow> pyval \<Rightarrow> pyval" where
  "config_of gpu_ids batch_size = PDict
     [(''model_name'', PStr ''fr2en''),
      (''gpu_ids'', gpu_ids),
      (''data'', PDict
         [(''batch_size'', batch_size), (''dir'', PStr ''/corpus''), (''epoch_size'', PInt 1000),
          (''max_length'', PInt 50), (''max_test_size'', PInt 100), (''max_val_size'', PInt 100),
          (''src'', PStr ''fr''), (''tgt'', PStr ''en'')]),
      (''encoder'', PDict [(''embedding_dim'', PInt 128), (''embedding_dropout'', PInt 0)]),
      (''decoder'', PDict [(''embedding_dim'', PInt 128), (''embedding_dropout'', PInt 0),
                          (''prediction_dropout'', PInt 0)]),
      (''network'', PDict
         [(''bias'', PBool True), (''block_sizes'', PList [PInt 4, PInt 4]),
          (''division_factor'', PInt 2), (''dropout'', PInt 0), (''efficient'', PBool False),
          (''growth_rate'', PInt 32)]),
      (''optim'', PDict [(''epochs'', PInt 10), (''lr'', PInt 1)])]"

definition two_gpus :: pyval where
  "two_gpus = PList [PInt 0, PInt 1]"

text \<open>A configuration for the CPU with no \<open>data.dir\<close>, and one with no network settings.\<close>

definition no_dir_config :: pyval where
  "no_dir_config = PDict
     [(''model_name'', PStr ''fr2en''), (''gpu_ids'', PList []),
      (''data'', PDict [(''batch_size'', PInt 64)])]"

definition no_network_config :: pyval where
  "no_network_config = PDict
     [(''model_name'', PStr ''fr2en''), (''gpu_ids'', PList []),
      (''data'', PDict
         [(''batch_size'', PInt 64), (''dir'', PStr ''/corpus''), (''epoch_size'', PInt 1000),
          (''max_length'', PInt 50), (''max_test_size'', PInt 100), (''max_val_size'', PInt 100),
          (''src'', PStr ''fr''), (''tgt'', PStr ''en'')])]"

section \<open>Properties of \<open>check_params\<close>\<close>

lemma lookup_keys_cases:
  "(\<exists>v'. lookup_keys v ks = Inr v' \<and> path_resolves v ks)
   \<or> (\<exists>k. lookup_keys v ks = Inl (KeyError k) \<and> \<not> path_resolves v ks)
   \<or> (lookup_keys v ks = Inl TypeError \<and> \<not> path_resolves v ks)"
proof (induction ks arbitrary: v)
  case Nil
  show ?case by simp
next
  case (Cons k ks)
  show ?case
  proof (cases v)
    case (PDict d)
    show ?thesis
    proof (cases "map_of d k")
      case None
      with PDict show ?thesis by simp
    next
      case (Some v')
      with PDict Cons.IH [of v'] show ?thesis by simp
    qed
  qed simp_all
qed

lemma check_params_step:
  "check_params params (p # ps) =
     (if missing params p then Inl (ValueError (not_supplied p)) else check_params params ps)"
  using lookup_keys_cases [of params "split_on CHR ''.'' p"]
  by (auto simp: missing_def)

lemma check_params_find:
  "check_params params param_list =
     (case find (missing params) param_list of
        None \<Rightarrow> Inr ()
      | Some param \<Rightarrow> Inl (ValueError (not_supplied param)))"
  by (induction param_list) (simp_all add: check_params_step del: check_params.simps(2))

lemma find_SomeD: "find P xs = Some x \<Longrightarrow> x \<in> set xs \<and> P x"
  by (induction xs) (auto split: if_splits)

text \<open>
  C1. \<open>check_params\<close> raises exactly when some listed path does not resolve in the
  configuration: it then raises the \<open>ValueError\<close> whose message names the first such
  path of the list; when every path resolves it returns normally.
\<close>

theorem check_params_raises_exactly_when_missing:
  "check_params params param_list =
     (case find (missing params) param_list of
        None \<Rightarrow> Inr ()
      | Some param \<Rightarrow> Inl (ValueError (not_supplied param)))
   \<and> ((\<exists>param \<in> set param_list. missing params param) \<longleftrightarrow>
        (\<exists>param \<in> set param_list.
           check_params params param_list = Inl (ValueError (not_supplied param))))
   \<and> ((\<forall>param \<in> set param_list. \<not> missing params param) \<longleftrightarrow>
        check_params params param_list = Inr ())"
proof (intro conjI)
  show "check_params params param_list =
     (case find (missing params) param_list of
        None \<Rightarrow> Inr ()
      | Some param \<Rightarrow> Inl (ValueError (not_supplied param)))"
    by (rule check_params_find)
  show "(\<exists>param \<in> set param_list. missing params param) \<longleftrightarrow>
        (\<exists>param \<in> set param_list.
           check_params params param_list = Inl (ValueError (not_supplied param)))"
    by (auto simp: check_params_find find_None_iff dest: find_SomeD split: option.splits)
  show "(\<forall>param \<in> set param_list. \<not> missing params param) \<longleftrightarrow>
        check_params params param_list = Inr ()"
    by (auto simp: check_params_find find_None_iff dest: find_SomeD split: option.splits)
qed

theorem check_params_raises_exactly_when_missing_witness:
  "check_params sample_config [''data.dir'', ''data.src.lang'', ''optim.lr'']
     = Inl (ValueError (not_supplied ''data.src.lang''))
   \<and> check_params sample_config [''data.dir'', ''data.src''] = Inr ()"
  using check_params_raises_exactly_when_missing
          [of sample_config "[''data.dir'', ''data.src.lang'', ''optim.lr'']"]
        check_params_raises_exactly_when_missing
          [of sample_config "[''data.dir'', ''data.src'']"]
  by (simp add: sample_config_def missing_def)

lemma lookup_keys_st_eq: "lookup_keys_st val keys store = (lookup_keys val keys, store)"
  by (induction keys arbitrary: val) (simp_all add: getitem_st_def split: sum.splits)

lemma check_params_st_eq:
  "check_params_st param_list store = (check_params store param_list, store)"
  by (induction param_list) (simp_all add: lookup_keys_st_eq split: sum.splits py_error.splits)

text \<open>
  C6. When every path of the list resolves, \<open>check_params\<close> returns normally and the
  configuration after the call is the configuration before it.
\<close>

theorem check_params_leaves_params_unchanged:
  "\<forall>param \<in> set param_list. \<not> missing params param \<Longrightarrow>
   check_params_st param_list params = (Inr (), params)"
proof -
  assume all_resolve: "\<forall>param \<in> set param_list. \<not> missing params param"
  then have "find (missing params) param_list = None"
    by (simp add: find_None_iff)
  then have "check_params params param_list = Inr ()"
    by (simp add: check_params_find)
  then show ?thesis
    by (simp add: check_params_st_eq)
qed

theorem check_params_leaves_params_unchanged_witness:
  "check_params_st [''data.dir'', ''data.src''] sample_config = (Inr (), sample_config)"
  using check_params_leaves_params_unchanged [of "[''data.dir'', ''data.src'']" sample_config]
  by (simp add: sample_config_def missing_def)

section \<open>Outcome and record of a computation\<close>

lemma fst_io_bind: "fst (io_bind m f) = (case fst m of Inl e \<Rightarrow> Inl e | Inr x \<Rightarrow> fst (f x))"
  by (cases m) (simp add: io_bind_def split: sum.splits prod.splits)

lemma snd_io_bind:
  "snd (io_bind m f) = (case fst m of Inl e \<Rightarrow> snd m | Inr x \<Rightarrow> snd m @ snd (f x))"
  by (cases m) (simp add: io_bind_def split: sum.splits prod.splits)

lemma fst_io_simps:
  "fst (io_lift r) = r" "fst (io_return x) = Inr x" "fst (io_raise e) = Inl e"
  "fst (io_emit ev) = Inr ()"
  by (simp_all add: io_lift_def io_return_def io_raise_def io_emit_def)

lemma snd_io_simps:
  "snd (io_lift r) = []" "snd (io_return x) = []" "snd (io_raise e) = []"
  "snd (io_emit ev) = [ev]"
  by (simp_all add: io_lift_def io_return_def io_raise_def io_emit_def)

lemma fst_io_call: "fst (io_call rt ev) = (case raises rt ev of None \<Rightarrow> Inr () | Some e \<Rightarrow> Inl e)"
  by (simp add: io_call_def split: option.splits)

lemma snd_io_call: "snd (io_call rt ev) = [ev]"
  by (simp add: io_call_def split: option.splits)

lemma io_bind_lift: "io_bind (io_lift r) f = (case r of Inl e \<Rightarrow> (Inl e, []) | Inr x \<Rightarrow> f x)"
  by (simp add: io_bind_def io_lift_def split: sum.splits prod.splits)

lemma events_bind:
  "list_all P (snd m) \<Longrightarrow> (\<And>x. fst m = Inr x \<Longrightarrow> list_all P (snd (f x))) \<Longrightarrow>
   list_all P (snd (io_bind m f))"
  by (simp add: snd_io_bind split: sum.splits)

lemma events_lift_bind:
  "(\<And>x. r = Inr x \<Longrightarrow> list_all P (snd (f x))) \<Longrightarrow> list_all P (snd (io_bind (io_lift r) f))"
  by (simp add: io_bind_lift split: sum.splits)

lemma events_call_bind:
  "P ev \<Longrightarrow> list_all P (snd (f ())) \<Longrightarrow> list_all P (snd (io_bind (io_call rt ev) f))"
  by (rule events_bind) (simp_all add: snd_io_call)



lemma filter_none: "list_all (\<lambda>e. \<not> P e) evs \<Longrightarrow> filter P evs = []"
  by (induction evs) auto

subsection \<open>The steps of the builder\<close>


lemma select_device_world:
  assumes "fst (select_device rt params pindex) = Inr (world_size, distributed, device_id, device)"
  shows "world_size = world_size_of params \<and> distributed = (1 < gpu_count params)"
  using assms
  by (auto simp: select_device_def fst_io_bind fst_io_simps fst_io_call Let_def gpu_count_def
                 world_size_of_def
           split: sum.splits option.splits if_splits)

lemma configure_result:
  assumes "fst (configure rt params project_dir pindex comm_file) =
             Inr (model_name, model_dir, world_size, distributed, device_id, device)"
  shows "fst (model_directory rt params project_dir) = Inr (model_name, model_dir)"
    and "fst (select_device rt params pindex) = Inr (world_size, distributed, device_id, device)"
    and "fst (init_distributed rt distributed world_size pindex comm_file) = Inr ()"
  using assms
  by (auto simp: configure_def fst_io_bind fst_io_simps split: sum.splits prod.splits)

lemma configure_trace:
  "snd (configure rt params project_dir pindex comm_file) =
     snd (model_directory rt params project_dir) @
     (case fst (model_directory rt params project_dir) of
        Inl e \<Rightarrow> []
      | Inr md \<Rightarrow>
          snd (select_device rt params pindex) @
          (case fst (select_device rt params pindex) of
             Inl e \<Rightarrow> []
           | Inr (world_size, distributed, device_id, device) \<Rightarrow>
               snd (init_distributed rt distributed world_size pindex comm_file)))"
  by (simp add: configure_def snd_io_bind snd_io_simps split: sum.splits prod.splits)

lemma build_learner_result:
  "fst (build_learner rt params project_dir pindex comm_file) =
     (case fst (configure rt params project_dir pindex comm_file) of
        Inl e \<Rightarrow> Inl e
      | Inr (model_name, model_dir, world_size, distributed, device_id, device) \<Rightarrow>
          fst (construct rt params model_name model_dir world_size distributed device_id device))"
  by (simp add: build_learner_def fst_io_bind split: sum.splits prod.splits)

lemma build_learner_trace:
  "snd (build_learner rt params project_dir pindex comm_file) =
     snd (configure rt params project_dir pindex comm_file) @
     (case fst (configure rt params project_dir pindex comm_file) of
        Inl e \<Rightarrow> []
      | Inr (model_name, model_dir, world_size, distributed, device_id, device) \<Rightarrow>
          snd (construct rt params model_name model_dir world_size distributed device_id device))"
  by (simp add: build_learner_def snd_io_bind split: sum.splits prod.splits)

lemma model_directory_events:
  "(\<And>d. P (MakeDirs d)) \<Longrightarrow> list_all P (snd (model_directory rt params project_dir))"
  unfolding model_directory_def
  by (intro events_lift_bind events_bind)
     (auto simp: makedirs_def io_call_def snd_io_simps split: option.splits py_error.splits)

lemma select_device_events:
  "(\<And>v. P (CudaGetDeviceName v)) \<Longrightarrow> (\<And>v. P (TorchDevice v)) \<Longrightarrow> (\<And>v. P (CudaSetDevice v)) \<Longrightarrow>
   list_all P (snd (select_device rt params pindex))"
  unfolding select_device_def Let_def
  by (intro events_lift_bind events_bind)
     (auto simp: snd_io_bind snd_io_call snd_io_simps split: sum.splits)

lemma init_distributed_trace:
  "snd (init_distributed rt distributed world_size pindex comm_file) =
     (if distributed then [InitProcessGroup ''nccl'' world_size pindex (init_method comm_file)]
      else [])"
  by (simp add: init_distributed_def snd_io_call snd_io_simps)

lemma load_data_events:
  "(\<And>si sh ti th c b ml es mv mt.
      lookup_keys params [''data'', ''batch_size''] = Inr c \<Longrightarrow>
      py_floordiv rt c (int world_size) = Inr b \<Longrightarrow>
      P (NewDataLoader si sh ti th b ml model_name es mv mt distributed)) \<Longrightarrow>
   list_all P (snd (load_data rt params model_name world_size distributed))"
  unfolding load_data_def
  by (intro events_lift_bind) (simp add: snd_io_call)

lemma define_network_events:
  "(\<And>args. P (NewPervasive model_name args)) \<Longrightarrow> P InitWeights \<Longrightarrow> (\<And>v. P (ModelCuda v)) \<Longrightarrow>
   (\<And>v. P (NewDistributedDataParallel v)) \<Longrightarrow>
   list_all P (snd (define_network rt params model_name device_id distributed))"
  unfolding define_network_def
  by (intro events_lift_bind events_call_bind)
     (auto simp: move_to_device_def snd_io_bind snd_io_call snd_io_simps split: sum.splits)

lemma construct_events:
  assumes "\<And>si sh ti th c b ml es mv mt.
             lookup_keys params [''data'', ''batch_size''] = Inr c \<Longrightarrow>
             py_floordiv rt c (int world_size) = Inr b \<Longrightarrow>
             P (NewDataLoader si sh ti th b ml model_name es mv mt distributed)"
    and "\<And>args. P (NewPervasive model_name args)" and "P InitWeights" and "\<And>v. P (ModelCuda v)"
    and "\<And>v. P (NewDistributedDataParallel v)" and "\<And>v. P (NewDataBunch v)"
    and "\<And>d. P (NewLearner d)"
  shows "list_all P (snd (construct rt params model_name model_dir world_size distributed
                             device_id device))"
  unfolding construct_def
proof (intro events_bind)
  show "list_all P (snd (load_data rt params model_name world_size distributed))"
    using assms(1) by (rule load_data_events)
  show "list_all P (snd (define_network rt params model_name device_id distributed))"
    using assms(2,3,4,5) by (rule define_network_events)
  show "list_all P (snd (io_call rt (NewDataBunch device)))"
    using assms(6) by (simp add: snd_io_call)
  show "list_all P (snd (io_call rt (NewLearner model_dir)))"
    using assms(7) by (simp add: snd_io_call)
  show "list_all P (snd (io_return (Learner model_dir)))"
    by (simp add: snd_io_simps)
qed

lemma configure_events:
  assumes "\<And>d. P (MakeDirs d)"
    and "\<And>v. P (CudaGetDeviceName v)" and "\<And>v. P (TorchDevice v)" and "\<And>v. P (CudaSetDevice v)"
    and "1 < gpu_count params \<Longrightarrow>
         P (InitProcessGroup ''nccl'' (gpu_count params) pindex (init_method comm_file))"
  shows "list_all P (snd (configure rt params project_dir pindex comm_file))"
proof -
  have md: "list_all P (snd (model_directory rt params project_dir))"
    using assms(1) by (rule model_directory_events)
  have sd: "list_all P (snd (select_device rt params pindex))"
    using assms(2,3,4) by (rule select_device_events)
  have init: "list_all P (snd (init_distributed rt distributed world_size pindex comm_file))"
    if "fst (select_device rt params pindex) = Inr (world_size, distributed, device_id, device)"
    for world_size distributed device_id device
    using select_device_world [OF that] assms(5)
    by (auto simp: init_distributed_trace world_size_of_def)
  show ?thesis
    using md sd init
    by (auto simp: configure_trace split: sum.splits prod.splits)
qed

lemma build_learner_events:
  assumes "\<And>d. P (MakeDirs d)"
    and "\<And>v. P (CudaGetDeviceName v)" and "\<And>v. P (TorchDevice v)" and "\<And>v. P (CudaSetDevice v)"
    and "1 < gpu_count params \<Longrightarrow>
         P (InitProcessGroup ''nccl'' (gpu_count params) pindex (init_method comm_file))"
    and "\<And>si sh ti th c b ml mn es mv mt.
           lookup_keys params [''data'', ''batch_size''] = Inr c \<Longrightarrow>
           py_floordiv rt c (int (world_size_of params)) = Inr b \<Longrightarrow>
           P (NewDataLoader si sh ti th b ml mn es mv mt (1 < gpu_count params))"
    and "\<And>mn args. P (NewPervasive mn args)" and "P InitWeights" and "\<And>v. P (ModelCuda v)"
    and "\<And>v. P (NewDistributedDataParallel v)" and "\<And>v. P (NewDataBunch v)"
    and "\<And>d. P (NewLearner d)"
  shows "list_all P (snd (build_learner rt params project_dir pindex comm_file))"
proof -
  have cfg: "list_all P (snd (configure rt params project_dir pindex comm_file))"
    using assms(1,2,3,4,5) by (rule configure_events)
  have con: "list_all P (snd (construct rt params model_name model_dir world_size distributed
                                device_id device))"
    if "fst (configure rt params project_dir pindex comm_file) =
          Inr (model_name, model_dir, world_size, distributed, device_id, device)"
    for model_name model_dir world_size distributed device_id device
  proof -
    from that have "fst (select_device rt params pindex) =
        Inr (world_size, distributed, device_id, device)"
      by (rule configure_result)
    then have ws: "world_size = world_size_of params" "distributed = (1 < gpu_count params)"
      using select_device_world by blast+
    show ?thesis
      using assms(6,7,8,9,10,11,12) unfolding ws by (intro construct_events) blast+
  qed
  show ?thesis
    using cfg con by (auto simp: build_learner_trace split: sum.splits prod.splits)
qed

section \<open>Properties of \<open>build_learner\<close>\<close>



text \<open>
  C4, as amended. A call that gets through lines 39-59 (the model directory and the
  device selection) without raising initializes the process group exactly when
  \<open>gpu_ids\<close> has more than one entry, and then once, with rank \<open>pindex\<close>, world
  size the number of entries and \<open>file://\<close> followed by \<open>comm_file\<close> as the
  rendezvous; a call that raises in those lines initializes none.
\<close>

theorem init_process_group_exactly_when_several_gpus:
  "filter is_init_process_group (snd (build_learner rt params project_dir pindex comm_file)) =
     (if reaches_init rt params project_dir pindex \<and> 1 < gpu_count params
      then [InitProcessGroup ''nccl'' (gpu_count params) pindex (init_method comm_file)]
      else [])"
proof -
  have md: "filter is_init_process_group (snd (model_directory rt params project_dir)) = []"
    by (intro filter_none model_directory_events) simp
  have sd: "filter is_init_process_group (snd (select_device rt params pindex)) = []"
    by (intro filter_none select_device_events) simp_all
  have con: "filter is_init_process_group
               (snd (construct rt params model_name model_dir world_size distributed
                       device_id device)) = []"
    for model_name model_dir world_size distributed device_id device
    by (intro filter_none construct_events) simp_all
  have "filter is_init_process_group (snd (build_learner rt params project_dir pindex comm_file)) =
        filter is_init_process_group (snd (configure rt params project_dir pindex comm_file))"
    by (simp add: build_learner_trace con split: sum.splits prod.splits)
  also have "\<dots> = (if reaches_init rt params project_dir pindex \<and> 1 < gpu_count params
      then [InitProcessGroup ''nccl'' (gpu_count params) pindex (init_method comm_file)]
      else [])"
  proof (cases "fst (model_directory rt params project_dir)")
    case (Inl e)
    then show ?thesis
      by (simp add: configure_trace md reaches_init_def)
  next
    case mdr: (Inr m)
    show ?thesis
    proof (cases "fst (select_device rt params pindex)")
      case (Inl e)
      with mdr show ?thesis
        by (simp add: configure_trace md sd reaches_init_def)
    next
      case (Inr dev)
      obtain world_size distributed device_id device
        where dev: "dev = (world_size, distributed, device_id, device)"
        by (cases dev)
      from Inr dev have "world_size = world_size_of params \<and> distributed = (1 < gpu_count params)"
        using select_device_world by blast
      with mdr Inr dev show ?thesis
        by (simp add: configure_trace md sd reaches_init_def init_distributed_trace
                      world_size_of_def)
    qed
  qed
  finally show ?thesis .
qed

theorem init_process_group_exactly_when_several_gpus_witness:
  "reaches_init plain_runtime (config_of two_gpus (PInt 64)) ''/proj'' 1
   \<and> gpu_count (config_of two_gpus (PInt 64)) = 2
   \<and> filter is_init_process_group
        (snd (build_learner plain_runtime (config_of two_gpus (PInt 64)) ''/proj'' 1 (Some ''/tmp/comm'')))
       = [InitProcessGroup ''nccl'' 2 1 ''file:///tmp/comm'']
   \<and> filter is_init_process_group
        (snd (build_learner plain_runtime (config_of (PList [PInt 0]) (PInt 64)) ''/proj'' 0 (Some ''/tmp/comm'')))
       = []"
  using init_process_group_exactly_when_several_gpus
          [of plain_runtime "config_of two_gpus (PInt 64)" "''/proj''" 1 "Some ''/tmp/comm''"]
        init_process_group_exactly_when_several_gpus
          [of plain_runtime "config_of (PList [PInt 0]) (PInt 64)" "''/proj''" 0 "Some ''/tmp/comm''"]
  by (simp add: reaches_init_def gpu_count_def model_directory_def select_device_def makedirs_def
                io_bind_def io_lift_def io_call_def io_return_def plain_runtime_def config_of_def
                two_gpus_def join2_def norm_index_def init_method_def)

text \<open>
  C4 as stated fails for a call that raises before line 62. The first configuration
  has two GPU ids and no \<open>model_name\<close>, so line 39 raises \<open>KeyError\<close> and no call is
  made at all; the second is complete, but the worker index 2 is outside its two GPU
  ids, so line 52 raises \<open>IndexError\<close> after the model directory was made.
\<close>

theorem init_process_group_counterexample:
  "getitem (PDict [(''gpu_ids'', two_gpus)]) ''gpu_ids'' = Inr two_gpus
   \<and> py_len two_gpus = Inr 2
   \<and> build_learner plain_runtime (PDict [(''gpu_ids'', two_gpus)]) ''/proj'' 0 (Some ''/tmp/comm'')
       = (Inl (KeyError ''model_name''), [])
   \<and> build_learner plain_runtime (config_of two_gpus (PInt 64)) ''/proj'' 2 (Some ''/tmp/comm'')
       = (Inl IndexError, [MakeDirs ''/proj/model/fr2en''])"
  by (simp add: build_learner_def configure_def model_directory_def select_device_def
                makedirs_def io_bind_def io_lift_def io_call_def io_return_def plain_runtime_def
                config_of_def two_gpus_def join2_def norm_index_def)

lemma sample_build_quiet:
  assumes "cuda_is_available rt" and "\<And>ev. \<not> is_learner_load ev \<Longrightarrow> raises rt ev = None"
  shows "build_learner rt (config_of two_gpus (PInt b)) ''/proj'' 0 comm_file =
     (Inr (Learner ''/proj/model/fr2en''),
      [MakeDirs ''/proj/model/fr2en'', CudaGetDeviceName (PInt 0), TorchDevice (PInt 0),
       CudaSetDevice (PInt 0), InitProcessGroup ''nccl'' 2 0 (init_method comm_file),
       NewDataLoader ''/corpus/fr.infos'' ''/corpus/fr.h5'' ''/corpus/en.infos'' ''/corpus/en.h5''
         (PInt (b div 2)) (PInt 50) (PStr ''fr2en'') (PInt 1000) (PInt 100) (PInt 100) True,
       NewPervasive (PStr ''fr2en'')
         [PList [PInt 4, PInt 4], PInt 52, PInt 52, PInt 128, PInt 128, PInt 0, PInt 0, PInt 0,
          PInt 0, PInt 2, PInt 32, PBool True, PBool False],
       InitWeights, ModelCuda (PInt 0), NewDistributedDataParallel (PInt 0),
       NewDataBunch (PInt 0), NewLearner ''/proj/model/fr2en''])"
  by (simp add: build_learner_def configure_def construct_def model_directory_def
        select_device_def init_distributed_def load_data_def define_network_def
        move_to_device_def makedirs_def io_bind_def io_lift_def io_call_def io_return_def
        config_of_def two_gpus_def data_params_def network_params_def
        join2_def norm_index_def assms)

lemma sample_build:
  "build_learner plain_runtime (config_of two_gpus (PInt b)) ''/proj'' 0 comm_file =
     (Inr (Learner ''/proj/model/fr2en''),
      [MakeDirs ''/proj/model/fr2en'', CudaGetDeviceName (PInt 0), TorchDevice (PInt 0),
       CudaSetDevice (PInt 0), InitProcessGroup ''nccl'' 2 0 (init_method comm_file),
       NewDataLoader ''/corpus/fr.infos'' ''/corpus/fr.h5'' ''/corpus/en.infos'' ''/corpus/en.h5''
         (PInt (b div 2)) (PInt 50) (PStr ''fr2en'') (PInt 1000) (PInt 100) (PInt 100) True,
       NewPervasive (PStr ''fr2en'')
         [PList [PInt 4, PInt 4], PInt 52, PInt 52, PInt 128, PInt 128, PInt 0, PInt 0, PInt 0,
          PInt 0, PInt 2, PInt 32, PBool True, PBool False],
       InitWeights, ModelCuda (PInt 0), NewDistributedDataParallel (PInt 0),
       NewDataBunch (PInt 0), NewLearner ''/proj/model/fr2en''])"
  by (rule sample_build_quiet) (simp_all add: plain_runtime_def)

lemma sample_batch_size:
  "lookup_keys (config_of gpu_ids batch_size) [''data'', ''batch_size''] = Inr batch_size"
  by (simp add: config_of_def)

lemma sample_gpu_count: "gpu_count (config_of two_gpus batch_size) = 2"
  by (simp add: gpu_count_def config_of_def two_gpus_def)

lemma batch_sizes_append: "batch_sizes (xs @ ys) = batch_sizes xs @ batch_sizes ys"
  by (induction xs rule: batch_sizes.induct) simp_all

lemma batch_sizes_all:
  "list_all (\<lambda>e. case e of NewDataLoader si sh ti th b ml mn es mv mt d \<Rightarrow> Q b | _ \<Rightarrow> True) evs \<Longrightarrow>
   list_all Q (batch_sizes evs)"
  by (induction evs rule: batch_sizes.induct) simp_all

lemma batch_sizes_none: "list_all (\<lambda>e. \<not> is_new_data_loader e) evs \<Longrightarrow> batch_sizes evs = []"
  by (induction evs rule: batch_sizes.induct) simp_all

lemma build_learner_batch_sizes:
  "list_all (\<lambda>b. \<exists>c. lookup_keys params [''data'', ''batch_size''] = Inr c \<and>
                      py_floordiv rt c (int (world_size_of params)) = Inr b)
     (batch_sizes (snd (build_learner rt params project_dir pindex comm_file)))"
  by (intro batch_sizes_all build_learner_events) auto

lemma one_loader_lift_bind:
  "(\<And>x. r = Inr x \<Longrightarrow> fst (f x) = Inr u \<longrightarrow> length (batch_sizes (snd (f x))) = 1) \<Longrightarrow>
   fst (io_bind (io_lift r) f) = Inr u \<longrightarrow> length (batch_sizes (snd (io_bind (io_lift r) f))) = 1"
  by (simp add: io_bind_lift split: sum.splits)

lemma load_data_trace:
  "fst (load_data rt params model_name world_size distributed) = Inr u \<longrightarrow>
   length (batch_sizes (snd (load_data rt params model_name world_size distributed))) = 1"
  unfolding load_data_def
  by (intro one_loader_lift_bind) (simp add: snd_io_call)

lemma construct_batch_sizes:
  assumes "fst (construct rt params model_name model_dir world_size distributed device_id device)
             = Inr learn"
  shows "length (batch_sizes (snd (construct rt params model_name model_dir world_size distributed
                                     device_id device))) = 1"
proof -
  from assms obtain u where ld: "fst (load_data rt params model_name world_size distributed) = Inr u"
    by (auto simp: construct_def fst_io_bind split: sum.splits)
  have rest: "batch_sizes (snd (io_bind (define_network rt params model_name device_id distributed) (\<lambda>_.
     io_bind (io_call rt (NewDataBunch device)) (\<lambda>_.
     io_bind (io_call rt (NewLearner model_dir)) (\<lambda>_.
     io_return (Learner model_dir)))))) = []"
    by (intro batch_sizes_none events_bind define_network_events) (simp_all add: snd_io_call snd_io_simps)
  show ?thesis
    using ld load_data_trace [of rt params model_name world_size distributed u] rest
    by (simp add: construct_def snd_io_bind batch_sizes_append)
qed

lemma build_learner_one_loader:
  assumes "fst (build_learner rt params project_dir pindex comm_file) = Inr learn"
  shows "length (batch_sizes (snd (build_learner rt params project_dir pindex comm_file))) = 1"
proof -
  have cfg: "batch_sizes (snd (configure rt params project_dir pindex comm_file)) = []"
    by (intro batch_sizes_none configure_events) simp_all
  from assms show ?thesis
    by (auto simp: build_learner_result build_learner_trace batch_sizes_append cfg
                   construct_batch_sizes split: sum.splits prod.splits)
qed

text \<open>
  C9, as amended. The batch size handed to the data loader is the configured batch
  size floor-divided by the world size, which is the number of entries of \<open>gpu_ids\<close>
  when there are any and 1 otherwise; a call that returns a learner built exactly one
  loader. The quotient is 0 when the configured batch size is not negative and smaller
  than the number of GPUs.
\<close>

theorem batch_size_floor_divided_by_world_size:
  "list_all (\<lambda>b. \<exists>c. lookup_keys params [''data'', ''batch_size''] = Inr c \<and>
                      py_floordiv rt c (int (world_size_of params)) = Inr b)
     (batch_sizes (snd (build_learner rt params project_dir pindex comm_file)))
   \<and> (lookup_keys params [''data'', ''batch_size''] = Inr (PInt c) \<longrightarrow>
        list_all (\<lambda>b. b = PInt (c div int (world_size_of params)))
          (batch_sizes (snd (build_learner rt params project_dir pindex comm_file))))
   \<and> (lookup_keys params [''data'', ''batch_size''] = Inr (PInt c) \<and>
        0 \<le> c \<and> c < int (gpu_count params) \<longrightarrow>
        list_all (\<lambda>b. b = PInt 0)
          (batch_sizes (snd (build_learner rt params project_dir pindex comm_file))))
   \<and> (\<not> isl (fst (build_learner rt params project_dir pindex comm_file)) \<longrightarrow>
        length (batch_sizes (snd (build_learner rt params project_dir pindex comm_file))) = 1)"
proof (intro conjI impI)
  let ?bs = "batch_sizes (snd (build_learner rt params project_dir pindex comm_file))"
  show all: "list_all (\<lambda>b. \<exists>c. lookup_keys params [''data'', ''batch_size''] = Inr c \<and>
                      py_floordiv rt c (int (world_size_of params)) = Inr b) ?bs"
    by (rule build_learner_batch_sizes)
  show "list_all (\<lambda>b. b = PInt (c div int (world_size_of params))) ?bs"
    if "lookup_keys params [''data'', ''batch_size''] = Inr (PInt c)"
    using all that by (auto simp: list_all_iff)
  show "list_all (\<lambda>b. b = PInt 0) ?bs"
    if "lookup_keys params [''data'', ''batch_size''] = Inr (PInt c) \<and>
        0 \<le> c \<and> c < int (gpu_count params)"
    using all that by (auto simp: list_all_iff world_size_of_def)
  show "length ?bs = 1"
    if "\<not> isl (fst (build_learner rt params project_dir pindex comm_file))"
    using that build_learner_one_loader
    by (cases "fst (build_learner rt params project_dir pindex comm_file)") auto
qed

theorem batch_size_floor_divided_by_world_size_witness:
  "lookup_keys (config_of two_gpus (PInt 64)) [''data'', ''batch_size''] = Inr (PInt 64)
   \<and> world_size_of (config_of two_gpus (PInt 64)) = 2
   \<and> list_all (\<lambda>b. b = PInt 32)
         (batch_sizes (snd (build_learner plain_runtime (config_of two_gpus (PInt 64)) ''/proj'' 0 None)))
   \<and> length (batch_sizes
         (snd (build_learner plain_runtime (config_of two_gpus (PInt 64)) ''/proj'' 0 None))) = 1"
  using batch_size_floor_divided_by_world_size
          [of "config_of two_gpus (PInt 64)" plain_runtime "''/proj''" 0 None 64]
  by (simp add: sample_build sample_batch_size sample_gpu_count world_size_of_def
           del: lookup_keys.simps)

text \<open>
  C9 as stated fails for a negative batch size, where floor division does not
  give 0: with two GPUs and a configured batch size of -1 the loader gets -1.
\<close>

theorem batch_size_counterexample:
  "lookup_keys (config_of two_gpus (PInt (- 1))) [''data'', ''batch_size''] = Inr (PInt (- 1))
   \<and> gpu_count (config_of two_gpus (PInt (- 1))) = 2
   \<and> batch_sizes (snd (build_learner plain_runtime (config_of two_gpus (PInt (- 1))) ''/proj'' 0 None))
        = [PInt (- 1)]"
  by (simp add: sample_build sample_batch_size sample_gpu_count del: lookup_keys.simps)

subsection \<open>Missing keys\<close>

lemma find_missing:
  "param \<in> set param_list \<Longrightarrow> missing params param \<Longrightarrow>
   \<exists>p \<in> set param_list. missing params p \<and> find (missing params) param_list = Some p"
  by (cases "find (missing params) param_list") (auto simp: find_None_iff dest: find_SomeD)

lemma load_data_missing:
  "find (missing params) data_params = Some p \<Longrightarrow>
   load_data rt params model_name world_size distributed = (Inl (ValueError (not_supplied p)), [])"
  by (simp add: load_data_def check_params_find io_bind_lift)

lemma construct_missing_data:
  "find (missing params) data_params = Some p \<Longrightarrow>
   construct rt params model_name model_dir world_size distributed device_id device =
     (Inl (ValueError (not_supplied p)), [])"
  by (simp add: construct_def load_data_missing io_bind_def)

lemma define_network_missing:
  "find (missing params) network_params = Some p \<Longrightarrow>
   define_network rt params model_name device_id distributed =
     (Inl (ValueError (not_supplied p)), [])"
  by (simp add: define_network_def check_params_find io_bind_lift)

lemma construct_missing_network:
  assumes "find (missing params) network_params = Some p"
  shows "isl (fst (construct rt params model_name model_dir world_size distributed device_id device))"
    and "list_all (\<lambda>e. \<not> is_new_pervasive e)
           (snd (construct rt params model_name model_dir world_size distributed device_id device))"
    and "\<not> isl (fst (load_data rt params model_name world_size distributed)) \<Longrightarrow>
         fst (construct rt params model_name model_dir world_size distributed device_id device) =
           Inl (ValueError (not_supplied p))"
proof -
  have ld: "list_all (\<lambda>e. \<not> is_new_pervasive e)
              (snd (load_data rt params model_name world_size distributed))"
    by (intro load_data_events) simp
  show "isl (fst (construct rt params model_name model_dir world_size distributed device_id device))"
    by (simp add: construct_def fst_io_bind define_network_missing [OF assms] split: sum.splits)
  show "list_all (\<lambda>e. \<not> is_new_pervasive e)
           (snd (construct rt params model_name model_dir world_size distributed device_id device))"
    using ld
    by (simp add: construct_def snd_io_bind fst_io_bind define_network_missing [OF assms]
             split: sum.splits)
  show "fst (construct rt params model_name model_dir world_size distributed device_id device) =
           Inl (ValueError (not_supplied p))"
    if "\<not> isl (fst (load_data rt params model_name world_size distributed))"
    using that
    by (cases "fst (load_data rt params model_name world_size distributed)")
       (simp_all add: construct_def fst_io_bind define_network_missing [OF assms])
qed

lemma configure_builds_nothing:
  "list_all (\<lambda>e. \<not> is_new_data_loader e \<and> \<not> is_new_pervasive e)
     (snd (configure rt params project_dir pindex comm_file))"
  by (intro configure_events) simp_all

lemma build_learner_missing_data:
  assumes "param \<in> set data_params" and "missing params param"
  shows "isl (fst (build_learner rt params project_dir pindex comm_file))"
    and "list_all (\<lambda>e. \<not> is_new_data_loader e)
           (snd (build_learner rt params project_dir pindex comm_file))"
    and "\<not> isl (fst (configure rt params project_dir pindex comm_file)) \<Longrightarrow>
         \<exists>p. find (missing params) data_params = Some p \<and>
           fst (build_learner rt params project_dir pindex comm_file) =
             Inl (ValueError (not_supplied p))"
proof -
  from assms obtain p where p: "p \<in> set data_params" "missing params p"
      "find (missing params) data_params = Some p"
    using find_missing by blast
  have cfg: "list_all (\<lambda>e. \<not> is_new_data_loader e)
               (snd (configure rt params project_dir pindex comm_file))"
    using configure_builds_nothing [of rt params project_dir pindex comm_file]
    by (simp add: list_all_iff)
  show "isl (fst (build_learner rt params project_dir pindex comm_file))"
    by (simp add: build_learner_result construct_missing_data [OF p(3)]
             split: sum.splits prod.splits)
  show "list_all (\<lambda>e. \<not> is_new_data_loader e)
           (snd (build_learner rt params project_dir pindex comm_file))"
    using cfg
    by (simp add: build_learner_trace construct_missing_data [OF p(3)]
             split: sum.splits prod.splits)
  show "\<exists>p. find (missing params) data_params = Some p \<and>
           fst (build_learner rt params project_dir pindex comm_file) =
             Inl (ValueError (not_supplied p))"
    if "\<not> isl (fst (configure rt params project_dir pindex comm_file))"
  proof -
    have "fst (build_learner rt params project_dir pindex comm_file) =
            Inl (ValueError (not_supplied p))"
      using that
      by (cases "fst (configure rt params project_dir pindex comm_file)")
         (simp_all add: build_learner_result construct_missing_data [OF p(3)]
               split: prod.splits)
    with p show ?thesis by blast
  qed
qed

lemma build_learner_missing_network:
  assumes "param \<in> set network_params" and "missing params param"
  shows "isl (fst (build_learner rt params project_dir pindex comm_file))"
    and "list_all (\<lambda>e. \<not> is_new_pervasive e)
           (snd (build_learner rt params project_dir pindex comm_file))"
    and "fst (configure rt params project_dir pindex comm_file) =
           Inr (model_name, model_dir, world_size, distributed, device_id, device) \<Longrightarrow>
         \<not> isl (fst (load_data rt params model_name world_size distributed)) \<Longrightarrow>
         \<exists>p. find (missing params) network_params = Some p \<and>
           fst (build_learner rt params project_dir pindex comm_file) =
             Inl (ValueError (not_supplied p))"
proof -
  from assms obtain p where p: "p \<in> set network_params" "missing params p"
      "find (missing params) network_params = Some p"
    using find_missing by blast
  have cfg: "list_all (\<lambda>e. \<not> is_new_pervasive e)
               (snd (configure rt params project_dir pindex comm_file))"
    using configure_builds_nothing [of rt params project_dir pindex comm_file]
    by (simp add: list_all_iff)
  show "isl (fst (build_learner rt params project_dir pindex comm_file))"
    by (simp add: build_learner_result construct_missing_network(1) [OF p(3)]
             split: sum.splits prod.splits)
  show "list_all (\<lambda>e. \<not> is_new_pervasive e)
           (snd (build_learner rt params project_dir pindex comm_file))"
    using cfg
    by (simp add: build_learner_trace construct_missing_network(2) [OF p(3)]
             split: sum.splits prod.splits)
  show "\<exists>p. find (missing params) network_params = Some p \<and>
           fst (build_learner rt params project_dir pindex comm_file) =
             Inl (ValueError (not_supplied p))"
    if "fst (configure rt params project_dir pindex comm_file) =
           Inr (model_name, model_dir, world_size, distributed, device_id, device)"
      and "\<not> isl (fst (load_data rt params model_name world_size distributed))"
  proof -
    have "fst (build_learner rt params project_dir pindex comm_file) =
            Inl (ValueError (not_supplied p))"
      using that by (simp add: build_learner_result construct_missing_network(3) [OF p(3)])
    with p show ?thesis by blast
  qed
qed

subsection \<open>The file reads seven top-level keys\<close>

lemma same_groups_getitem:
  assumes "same_groups params params'"
  shows "getitem params ''data'' = getitem params' ''data''"
    and "getitem params ''encoder'' = getitem params' ''encoder''"
    and "getitem params ''decoder'' = getitem params' ''decoder''"
    and "getitem params ''network'' = getitem params' ''network''"
    and "getitem params ''optim'' = getitem params' ''optim''"
    and "getitem params ''gpu_ids'' = getitem params' ''gpu_ids''"
    and "getitem params ''model_name'' = getitem params' ''model_name''"
  using assms by (simp_all add: same_groups_def groups_def)

lemma check_params_same:
  "list_all (\<lambda>p. lookup_keys params (split_on CHR ''.'' p) =
                  lookup_keys params' (split_on CHR ''.'' p)) param_list \<Longrightarrow>
   check_params params param_list = check_params params' param_list"
  by (induction param_list) (simp_all cong: sum.case_cong)

lemma check_data_same:
  "same_groups params params' \<Longrightarrow>
   check_params params data_params = check_params params' data_params"
  by (rule check_params_same) (simp add: data_params_def same_groups_getitem)

lemma check_network_same:
  "same_groups params params' \<Longrightarrow>
   check_params params network_params = check_params params' network_params"
  by (rule check_params_same) (simp add: network_params_def same_groups_getitem)

lemma check_optim_same:
  "same_groups params params' \<Longrightarrow>
   check_params params optim_params = check_params params' optim_params"
  by (rule check_params_same) (simp add: optim_params_def same_groups_getitem)

lemma configure_same:
  "same_groups params params' \<Longrightarrow>
   configure rt params project_dir pindex comm_file =
   configure rt params' project_dir pindex comm_file"
  by (simp add: configure_def model_directory_def select_device_def same_groups_getitem)

lemma load_data_same:
  "same_groups params params' \<Longrightarrow>
   load_data rt params model_name world_size distributed =
   load_data rt params' model_name world_size distributed"
  by (simp add: load_data_def check_data_same same_groups_getitem)

lemma define_network_same:
  "same_groups params params' \<Longrightarrow>
   define_network rt params model_name device_id distributed =
   define_network rt params' model_name device_id distributed"
  by (simp add: define_network_def check_network_same same_groups_getitem)

lemma build_learner_same:
  "same_groups params params' \<Longrightarrow>
   build_learner rt params project_dir pindex comm_file =
   build_learner rt params' project_dir pindex comm_file"
  by (simp add: build_learner_def construct_def configure_same load_data_same
                define_network_same)

lemma fit_same:
  "same_groups params params' \<Longrightarrow> fit rt params epoch = fit rt params' epoch"
  by (simp add: fit_def check_optim_same same_groups_getitem)

lemma train_worker_same:
  "same_groups params params' \<Longrightarrow>
   train_worker rt getenv_rank pindex project_dir params comm_file checkpoint restore =
   train_worker rt getenv_rank pindex project_dir params' comm_file checkpoint restore"
proof -
  assume same: "same_groups params params'"
  have build: "build_learner rt params project_dir pindex comm_file =
               build_learner rt params' project_dir pindex comm_file"
    using same by (rule build_learner_same)
  have fit: "fit rt params = fit rt params'"
    using same by (intro ext fit_same)
  show ?thesis
    unfolding train_worker_def restore_and_fit_def build fit ..
qed

lemma required_keys_in_groups:
  "list_all (\<lambda>p. hd (split_on CHR ''.'' p) \<in> set groups)
     (data_params @ network_params @ optim_params)"
  by (simp add: data_params_def network_params_def optim_params_def groups_def)

lemma no_dir_build:
  "build_learner plain_runtime no_dir_config ''/proj'' 0 None =
     (Inl (ValueError (not_supplied ''data.dir'')),
      [MakeDirs ''/proj/model/fr2en'', TorchDevice (PStr ''cpu'')])"
  by (simp add: build_learner_def configure_def construct_def model_directory_def
        select_device_def init_distributed_def load_data_def makedirs_def io_bind_def
        io_lift_def io_call_def io_return_def plain_runtime_def no_dir_config_def
        data_params_def join2_def)

lemma no_network_build:
  "build_learner plain_runtime no_network_config ''/proj'' 0 None =
     (Inl (ValueError (not_supplied ''decoder.embedding_dim'')),
      [MakeDirs ''/proj/model/fr2en'', TorchDevice (PStr ''cpu''),
       NewDataLoader ''/corpus/fr.infos'' ''/corpus/fr.h5'' ''/corpus/en.infos'' ''/corpus/en.h5''
         (PInt 64) (PInt 50) (PStr ''fr2en'') (PInt 1000) (PInt 100) (PInt 100) False])"
  by (simp add: build_learner_def configure_def construct_def model_directory_def
        select_device_def init_distributed_def load_data_def define_network_def makedirs_def
        io_bind_def io_lift_def io_call_def io_return_def plain_runtime_def
        no_network_config_def data_params_def network_params_def join2_def)

text \<open>
  C7, as amended. A configuration in which a required key under \<open>data\<close> does not
  resolve makes \<open>build_learner\<close> raise without constructing the data loader, and the
  error is the \<open>ValueError\<close> naming the first missing data key of the checked list
  whenever lines 39-66 did not raise first. A configuration in which a required key
  under \<open>encoder\<close>, \<open>decoder\<close> or \<open>network\<close> does not resolve makes it raise without
  constructing the model, and the error is the \<open>ValueError\<close> naming the first missing
  key of the checked list whenever lines 39-66 did not raise and the data loader was
  constructed. Every checked path starts with one of the groups \<open>data\<close>, \<open>encoder\<close>,
  \<open>decoder\<close>, \<open>network\<close>, \<open>optim\<close>, and two configurations that agree on these and on
  \<open>gpu_ids\<close> and \<open>model_name\<close> make \<open>train_worker\<close> behave alike.
\<close>

theorem required_keys_checked_before_construction:
  "(param \<in> set data_params \<and> missing params param \<longrightarrow>
      isl (fst (build_learner rt params project_dir pindex comm_file)) \<and>
      list_all (\<lambda>e. \<not> is_new_data_loader e)
        (snd (build_learner rt params project_dir pindex comm_file)) \<and>
      (\<not> isl (fst (configure rt params project_dir pindex comm_file)) \<longrightarrow>
         (\<exists>p. find (missing params) data_params = Some p \<and>
            fst (build_learner rt params project_dir pindex comm_file) =
              Inl (ValueError (not_supplied p)))))
   \<and> (param \<in> set network_params \<and> missing params param \<longrightarrow>
      isl (fst (build_learner rt params project_dir pindex comm_file)) \<and>
      list_all (\<lambda>e. \<not> is_new_pervasive e)
        (snd (build_learner rt params project_dir pindex comm_file)) \<and>
      (fst (configure rt params project_dir pindex comm_file) =
         Inr (model_name, model_dir, world_size, distributed, device_id, device) \<and>
       \<not> isl (fst (load_data rt params model_name world_size distributed)) \<longrightarrow>
         (\<exists>p. find (missing params) network_params = Some p \<and>
            fst (build_learner rt params project_dir pindex comm_file) =
              Inl (ValueError (not_supplied p)))))
   \<and> list_all (\<lambda>p. hd (split_on CHR ''.'' p) \<in> set groups)
        (data_params @ network_params @ optim_params)
   \<and> (same_groups params params' \<longrightarrow>
        train_worker rt getenv_rank pindex project_dir params comm_file checkpoint restore =
        train_worker rt getenv_rank pindex project_dir params' comm_file checkpoint restore)"
proof (intro conjI impI)
  assume "param \<in> set data_params \<and> missing params param"
  then have h: "param \<in> set data_params" "missing params param" by simp_all
  show "isl (fst (build_learner rt params project_dir pindex comm_file))"
    using h by (rule build_learner_missing_data(1))
  show "list_all (\<lambda>e. \<not> is_new_data_loader e)
          (snd (build_learner rt params project_dir pindex comm_file))"
    using h by (rule build_learner_missing_data(2))
  show "\<exists>p. find (missing params) data_params = Some p \<and>
            fst (build_learner rt params project_dir pindex comm_file) =
              Inl (ValueError (not_supplied p))"
    if "\<not> isl (fst (configure rt params project_dir pindex comm_file))"
    using h that by (rule build_learner_missing_data(3))
next
  assume "param \<in> set network_params \<and> missing params param"
  then have h: "param \<in> set network_params" "missing params param" by simp_all
  show "isl (fst (build_learner rt params project_dir pindex comm_file))"
    using h by (rule build_learner_missing_network(1))
  show "list_all (\<lambda>e. \<not> is_new_pervasive e)
          (snd (build_learner rt params project_dir pindex comm_file))"
    using h by (rule build_learner_missing_network(2))
  show "\<exists>p. find (missing params) network_params = Some p \<and>
            fst (build_learner rt params project_dir pindex comm_file) =
              Inl (ValueError (not_supplied p))"
    if "fst (configure rt params project_dir pindex comm_file) =
         Inr (model_name, model_dir, world_size, distributed, device_id, device) \<and>
       \<not> isl (fst (load_data rt params model_name world_size distributed))"
    using build_learner_missing_network(3) [OF h] that by blast
next
  show "list_all (\<lambda>p. hd (split_on CHR ''.'' p) \<in> set groups)
          (data_params @ network_params @ optim_params)"
    by (rule required_keys_in_groups)
next
  assume "same_groups params params'"
  then show "train_worker rt getenv_rank pindex project_dir params comm_file checkpoint restore =
        train_worker rt getenv_rank pindex project_dir params' comm_file checkpoint restore"
    by (rule train_worker_same)
qed

theorem required_keys_checked_before_construction_witness:
  "''data.dir'' \<in> set data_params
   \<and> missing no_dir_config ''data.dir''
   \<and> isl (fst (build_learner plain_runtime no_dir_config ''/proj'' 0 None))
   \<and> list_all (\<lambda>e. \<not> is_new_data_loader e)
        (snd (build_learner plain_runtime no_dir_config ''/proj'' 0 None))
   \<and> ''network.bias'' \<in> set network_params
   \<and> missing no_network_config ''network.bias''
   \<and> isl (fst (build_learner plain_runtime no_network_config ''/proj'' 0 None))
   \<and> list_all (\<lambda>e. \<not> is_new_pervasive e)
        (snd (build_learner plain_runtime no_network_config ''/proj'' 0 None))
   \<and> find (missing no_dir_config) data_params = Some ''data.dir''
   \<and> fst (build_learner plain_runtime no_dir_config ''/proj'' 0 None) =
        Inl (ValueError (not_supplied ''data.dir''))
   \<and> find (missing no_network_config) network_params = Some ''decoder.embedding_dim''
   \<and> fst (build_learner plain_runtime no_network_config ''/proj'' 0 None) =
        Inl (ValueError (not_supplied ''decoder.embedding_dim''))"
proof -
  have first_data: "find (missing no_dir_config) data_params = Some ''data.dir''"
    by (simp add: data_params_def missing_def no_dir_config_def)
  have first_network:
    "find (missing no_network_config) network_params = Some ''decoder.embedding_dim''"
    by (simp add: network_params_def missing_def no_network_config_def)
  have d: "''data.dir'' \<in> set data_params \<and> missing no_dir_config ''data.dir''"
    by (simp add: data_params_def missing_def no_dir_config_def)
  have n: "''network.bias'' \<in> set network_params \<and> missing no_network_config ''network.bias''"
    by (simp add: network_params_def missing_def no_network_config_def)
  have checked:
    "isl (fst (build_learner plain_runtime no_dir_config ''/proj'' 0 None))
     \<and> list_all (\<lambda>e. \<not> is_new_data_loader e)
          (snd (build_learner plain_runtime no_dir_config ''/proj'' 0 None))
     \<and> isl (fst (build_learner plain_runtime no_network_config ''/proj'' 0 None))
     \<and> list_all (\<lambda>e. \<not> is_new_pervasive e)
          (snd (build_learner plain_runtime no_network_config ''/proj'' 0 None))"
    using d n
      required_keys_checked_before_construction
        [of "''data.dir''" no_dir_config plain_runtime "''/proj''" 0 None]
      required_keys_checked_before_construction
        [of "''network.bias''" no_network_config plain_runtime "''/proj''" 0 None]
    by blast
  show ?thesis
    using d n checked first_data first_network by (simp add: no_dir_build no_network_build)
qed

text \<open>
  C7 as stated fails where an earlier line raises something else: the empty
  configuration has no \<open>data.batch_size\<close>, and \<open>build_learner\<close> raises the \<open>KeyError\<close>
  of line 39, not a \<open>ValueError\<close>.
\<close>

theorem required_keys_counterexample:
  "''data.batch_size'' \<in> set data_params
   \<and> missing (PDict []) ''data.batch_size''
   \<and> build_learner plain_runtime (PDict []) ''/proj'' 0 None = (Inl (KeyError ''model_name''), [])"
  by (simp add: data_params_def missing_def build_learner_def configure_def model_directory_def
                io_bind_def io_lift_def)

section \<open>Properties of \<open>train_worker\<close>\<close>

lemma set_rank_result: "fst (set_rank getenv_rank pindex) = Inr ()"
  by (simp add: set_rank_def fst_io_simps)

lemma set_rank_events:
  "(\<And>k v. P (EnvironSet k v)) \<Longrightarrow> list_all P (snd (set_rank getenv_rank pindex))"
  by (simp add: set_rank_def snd_io_simps)

lemma train_worker_result:
  "fst (train_worker rt getenv_rank pindex project_dir params comm_file checkpoint restore) =
     (case fst (build_learner rt params project_dir pindex comm_file) of
        Inl e \<Rightarrow> Inl e
      | Inr learn \<Rightarrow> fst (restore_and_fit rt pindex params learn restore))"
  by (simp add: train_worker_def fst_io_bind set_rank_result)

lemma train_worker_trace:
  "snd (train_worker rt getenv_rank pindex project_dir params comm_file checkpoint restore) =
     snd (set_rank getenv_rank pindex) @
     snd (build_learner rt params project_dir pindex comm_file) @
     (case fst (build_learner rt params project_dir pindex comm_file) of
        Inl e \<Rightarrow> []
      | Inr learn \<Rightarrow> snd (restore_and_fit rt pindex params learn restore))"
  by (simp add: train_worker_def snd_io_bind fst_io_bind set_rank_result split: sum.splits)

lemma build_learner_no_training:
  "list_all (\<lambda>e. \<not> is_fit_one_cycle e \<and> \<not> is_set_callbacks e \<and> \<not> is_learner_load e)
     (snd (build_learner rt params project_dir pindex comm_file))"
  by (intro build_learner_events) simp_all

lemma restore_model_not_found:
  assumes "raises rt (LearnerLoad (model_dir_of learn) (strip_pth restore)) = Some FileNotFoundError"
  shows "restore_model rt pindex learn restore =
           (Inr None,
            LearnerLoad (model_dir_of learn) (strip_pth restore) #
            (if pindex = 0
             then [Print (not_found_message (model_dir_of learn) (strip_pth restore))]
             else []))"
  using assms by (simp add: restore_model_def io_call_def Let_def)

lemma restore_model_loaded:
  assumes "raises rt (LearnerLoad (model_dir_of learn) (strip_pth restore)) = None"
  shows "restore_model rt pindex learn restore =
           (Inr (Some (strip_pth restore)),
            LearnerLoad (model_dir_of learn) (strip_pth restore) #
            (if pindex = 0 then [Print (''Loaded model '' @ strip_pth restore @ ''.'')] else []))"
  using assms by (simp add: restore_model_def io_call_def Let_def)

text \<open>
  C2. When the learner was built and the load of the named checkpoint raises
  \<open>FileNotFoundError\<close>, \<open>train_worker\<close> catches it and returns normally: after the
  calls of the builder it makes the load, the worker of rank 0 prints that the file
  was not found, and nothing else happens; in particular \<open>fit_one_cycle\<close> is never
  called.
\<close>

theorem missing_checkpoint_aborts_startup:
  assumes "fst (build_learner rt params project_dir pindex comm_file) = Inr learn"
    and "raises rt (LearnerLoad (model_dir_of learn) (strip_pth restore)) = Some FileNotFoundError"
  shows "train_worker rt getenv_rank pindex project_dir params comm_file checkpoint (Some restore) =
           (Inr (),
            snd (set_rank getenv_rank pindex) @
            snd (build_learner rt params project_dir pindex comm_file) @
            LearnerLoad (model_dir_of learn) (strip_pth restore) #
            (if pindex = 0
             then [Print (not_found_message (model_dir_of learn) (strip_pth restore))]
             else []))
         \<and> filter is_fit_one_cycle
             (snd (train_worker rt getenv_rank pindex project_dir params comm_file checkpoint
                     (Some restore))) = []"
proof -
  have raf: "restore_and_fit rt pindex params learn (Some restore) =
           (Inr (),
            LearnerLoad (model_dir_of learn) (strip_pth restore) #
            (if pindex = 0
             then [Print (not_found_message (model_dir_of learn) (strip_pth restore))]
             else []))"
    by (simp add: restore_and_fit_def restore_model_not_found [OF assms(2)] io_bind_def
                  io_return_def)
  have run: "train_worker rt getenv_rank pindex project_dir params comm_file checkpoint (Some restore) =
           (Inr (),
            snd (set_rank getenv_rank pindex) @
            snd (build_learner rt params project_dir pindex comm_file) @
            LearnerLoad (model_dir_of learn) (strip_pth restore) #
            (if pindex = 0
             then [Print (not_found_message (model_dir_of learn) (strip_pth restore))]
             else []))"
    using assms(1) raf
    by (simp add: prod_eq_iff train_worker_result train_worker_trace)
  have no_fit_rank: "filter is_fit_one_cycle (snd (set_rank getenv_rank pindex)) = []"
    by (intro filter_none set_rank_events) simp
  have no_fit_build:
    "filter is_fit_one_cycle (snd (build_learner rt params project_dir pindex comm_file)) = []"
    using build_learner_no_training [of rt params project_dir pindex comm_file]
    by (intro filter_none) (simp add: list_all_iff)
  show ?thesis
    unfolding run using no_fit_rank no_fit_build by (simp add: run)
qed

lemma no_checkpoint_build:
  "build_learner no_checkpoint_runtime (config_of two_gpus (PInt b)) ''/proj'' 0 comm_file =
     (Inr (Learner ''/proj/model/fr2en''),
      [MakeDirs ''/proj/model/fr2en'', CudaGetDeviceName (PInt 0), TorchDevice (PInt 0),
       CudaSetDevice (PInt 0), InitProcessGroup ''nccl'' 2 0 (init_method comm_file),
       NewDataLoader ''/corpus/fr.infos'' ''/corpus/fr.h5'' ''/corpus/en.infos'' ''/corpus/en.h5''
         (PInt (b div 2)) (PInt 50) (PStr ''fr2en'') (PInt 1000) (PInt 100) (PInt 100) True,
       NewPervasive (PStr ''fr2en'')
         [PList [PInt 4, PInt 4], PInt 52, PInt 52, PInt 128, PInt 128, PInt 0, PInt 0, PInt 0,
          PInt 0, PInt 2, PInt 32, PBool True, PBool False],
       InitWeights, ModelCuda (PInt 0), NewDistributedDataParallel (PInt 0),
       NewDataBunch (PInt 0), NewLearner ''/proj/model/fr2en''])"
  by (rule sample_build_quiet) (simp_all add: no_checkpoint_runtime_def plain_runtime_def)

theorem missing_checkpoint_aborts_startup_witness:
  "fst (build_learner no_checkpoint_runtime (config_of two_gpus (PInt 64)) ''/proj'' 0 None) =
     Inr (Learner ''/proj/model/fr2en'')
   \<and> strip_pth ''model_3.pth'' = ''model_3''
   \<and> raises no_checkpoint_runtime (LearnerLoad ''/proj/model/fr2en'' ''model_3'') =
       Some FileNotFoundError
   \<and> fst (train_worker no_checkpoint_runtime None 0 ''/proj'' (config_of two_gpus (PInt 64)) None
            PNone (Some ''model_3.pth'')) = Inr ()
   \<and> last (snd (train_worker no_checkpoint_runtime None 0 ''/proj'' (config_of two_gpus (PInt 64))
                  None PNone (Some ''model_3.pth''))) =
       Print (not_found_message ''/proj/model/fr2en'' ''model_3'')
   \<and> filter is_fit_one_cycle
        (snd (train_worker no_checkpoint_runtime None 0 ''/proj'' (config_of two_gpus (PInt 64))
                None PNone (Some ''model_3.pth''))) = []"
proof -
  have built:
    "fst (build_learner no_checkpoint_runtime (config_of two_gpus (PInt 64)) ''/proj'' 0 None) =
       Inr (Learner ''/proj/model/fr2en'')"
    by (simp add: no_checkpoint_build)
  have name: "strip_pth ''model_3.pth'' = ''model_3''"
    by (simp add: strip_pth_def)
  have gone: "raises no_checkpoint_runtime
               (LearnerLoad (model_dir_of (Learner ''/proj/model/fr2en'')) (strip_pth ''model_3.pth'')) =
              Some FileNotFoundError"
    by (simp add: no_checkpoint_runtime_def)
  show ?thesis
    using missing_checkpoint_aborts_startup [OF built gone, of None PNone] built name gone
    by (simp add: no_checkpoint_build set_rank_def io_emit_def)
qed

lemma fit_events:
  assumes "P (SetCallbacks [SaveModelCallback ''epoch'' ''model''])"
    and "\<And>epochs lr tot_epochs. P (FitOneCycle epochs lr tot_epochs epoch)"
  shows "list_all P (snd (fit rt params epoch))"
  unfolding fit_def
  by (intro events_call_bind events_lift_bind) (simp_all add: assms snd_io_call)

lemma restore_model_events:
  assumes "\<And>d n. P (LearnerLoad d n)" and "\<And>s. P (Print s)"
  shows "list_all P (snd (restore_model rt pindex learn restore))"
  by (simp add: restore_model_def io_call_def Let_def assms
           split: option.splits py_error.splits)

lemma restore_model_name:
  "fst (restore_model rt pindex learn restore) = Inr (Some name) \<Longrightarrow> name = strip_pth restore"
  by (simp add: restore_model_def io_call_def Let_def split: option.splits py_error.splits)

lemma restore_and_fit_events:
  assumes "\<And>d n. P (LearnerLoad d n)" and "\<And>s. P (Print s)"
    and "P (SetCallbacks [SaveModelCallback ''epoch'' ''model''])"
    and "\<And>epochs lr tot_epochs. P (FitOneCycle epochs lr tot_epochs (start_epoch rt restore))"
  shows "list_all P (snd (restore_and_fit rt pindex params learn restore))"
proof (cases restore)
  case None
  then show ?thesis
    using assms(3,4) by (simp add: restore_and_fit_def start_epoch_def fit_events)
next
  case (Some restore0)
  have load: "list_all P (snd (restore_model rt pindex learn restore0))"
    using assms(1,2) by (rule restore_model_events)
  have rest: "list_all P (snd (case loaded of
                 None \<Rightarrow> io_return ()
               | Some name \<Rightarrow> io_bind (io_lift (resume_epoch rt name)) (\<lambda>epoch. fit rt params epoch)))"
    if "fst (restore_model rt pindex learn restore0) = Inr loaded" for loaded
  proof (cases loaded)
    case None
    then show ?thesis by (simp add: snd_io_simps)
  next
    case (Some name)
    with that have name: "name = strip_pth restore0"
      by (simp add: restore_model_name)
    show ?thesis
    proof (cases "resume_epoch rt name")
      case (Inl e)
      with Some show ?thesis by (simp add: io_bind_lift)
    next
      case (Inr epoch)
      with name \<open>restore = Some restore0\<close> have "start_epoch rt restore = epoch"
        by (simp add: start_epoch_def)
      with assms(3,4) have "list_all P (snd (fit rt params epoch))"
        by (intro fit_events) auto
      with Some Inr show ?thesis by (simp add: io_bind_lift)
    qed
  qed
  show ?thesis
    using Some load rest by (simp add: restore_and_fit_def events_bind)
qed

lemma train_worker_events:
  assumes "\<And>e. \<not> is_fit_one_cycle e \<Longrightarrow> \<not> is_set_callbacks e \<Longrightarrow> P e"
    and "P (SetCallbacks [SaveModelCallback ''epoch'' ''model''])"
    and "\<And>epochs lr tot_epochs. P (FitOneCycle epochs lr tot_epochs (start_epoch rt restore))"
  shows "list_all P
           (snd (train_worker rt getenv_rank pindex project_dir params comm_file checkpoint restore))"
proof -
  have rank: "list_all P (snd (set_rank getenv_rank pindex))"
    by (intro set_rank_events assms(1)) simp_all
  have build: "list_all P (snd (build_learner rt params project_dir pindex comm_file))"
    by (intro build_learner_events assms(1)) simp_all
  have raf: "list_all P (snd (restore_and_fit rt pindex params learn restore))" for learn
    by (intro restore_and_fit_events assms(1,2,3)) simp_all
  show ?thesis
    using rank build raf by (simp add: train_worker_trace split: sum.splits)
qed

lemma list_all_filter: "list_all (\<lambda>e. p e \<longrightarrow> Q e) xs \<Longrightarrow> list_all Q (filter p xs)"
  by (induction xs) auto

text \<open>
  C8. The value of \<open>checkpoint\<close> does not change what \<open>train_worker\<close> does, and the
  only callbacks it registers are the one list holding a save-every-epoch callback.
\<close>

theorem checkpoint_argument_is_ignored:
  "train_worker rt getenv_rank pindex project_dir params comm_file checkpoint restore =
   train_worker rt getenv_rank pindex project_dir params comm_file checkpoint' restore
   \<and> list_all (\<lambda>e. e = SetCallbacks [SaveModelCallback ''epoch'' ''model''])
        (filter is_set_callbacks
           (snd (train_worker rt getenv_rank pindex project_dir params comm_file checkpoint
                   restore)))"
proof
  show "train_worker rt getenv_rank pindex project_dir params comm_file checkpoint restore =
        train_worker rt getenv_rank pindex project_dir params comm_file checkpoint' restore"
    by (simp add: train_worker_def)
  show "list_all (\<lambda>e. e = SetCallbacks [SaveModelCallback ''epoch'' ''model''])
        (filter is_set_callbacks
           (snd (train_worker rt getenv_rank pindex project_dir params comm_file checkpoint
                   restore)))"
    by (intro list_all_filter train_worker_events) simp_all
qed

lemma sample_fit:
  "fit plain_runtime (config_of gpu_ids batch_size) epoch =
     (Inr (), [SetCallbacks [SaveModelCallback ''epoch'' ''model''],
               FitOneCycle (PInt 10) (PInt 1) (PInt 10) epoch])"
  by (simp add: fit_def optim_params_def io_bind_def io_lift_def io_call_def plain_runtime_def
                config_of_def)

lemma py_str_int_zero: "py_str_int 0 = ''0''"
  by code_simp

lemma sample_train:
  "snd (train_worker plain_runtime None 0 ''/proj'' (config_of two_gpus (PInt 64)) None
          checkpoint None) =
     EnvironSet ''RANK'' ''0'' #
     snd (build_learner plain_runtime (config_of two_gpus (PInt 64)) ''/proj'' 0 None) @
     [SetCallbacks [SaveModelCallback ''epoch'' ''model''],
      FitOneCycle (PInt 10) (PInt 1) (PInt 10) None]"
  by (simp add: train_worker_trace sample_build restore_and_fit_def sample_fit set_rank_def
                io_emit_def py_str_int_zero)

theorem checkpoint_argument_is_ignored_witness:
  "train_worker plain_runtime None 0 ''/proj'' (config_of two_gpus (PInt 64)) None (PInt 500) None =
   train_worker plain_runtime None 0 ''/proj'' (config_of two_gpus (PInt 64)) None PNone None
   \<and> filter is_set_callbacks
        (snd (train_worker plain_runtime None 0 ''/proj'' (config_of two_gpus (PInt 64)) None
                (PInt 500) None)) =
       [SetCallbacks [SaveModelCallback ''epoch'' ''model'']]"
  using checkpoint_argument_is_ignored
          [of plain_runtime None 0 "''/proj''" "config_of two_gpus (PInt 64)" None "PInt 500" None
              PNone]
  by (simp add: sample_train sample_build)

subsection \<open>The resume epoch\<close>

lemma split_on_not_empty: "split_on c s \<noteq> []"
  by (induction s) (auto split: list.splits)

lemma resume_epoch_total: "\<exists>epoch. resume_epoch rt restore = Inr epoch"
  by (simp add: resume_epoch_def last_item_def split_on_not_empty Let_def split: option.splits)

lemma strip_pth_spec: "strip_pth restore = spec_strip_pth restore"
proof -
  have "drop (length restore - 4) restore = ''.pth'' \<longleftrightarrow> suffix ''.pth'' restore"
  proof
    assume "drop (length restore - 4) restore = ''.pth''"
    then have "restore = take (length restore - 4) restore @ ''.pth''"
      by (metis append_take_drop_id)
    then show "suffix ''.pth'' restore"
      by (metis suffixI)
  next
    assume "suffix ''.pth'' restore"
    then obtain zs where "restore = zs @ ''.pth''"
      by (auto simp: suffix_def)
    then show "drop (length restore - 4) restore = ''.pth''"
      by simp
  qed
  then show ?thesis
    by (simp add: strip_pth_def spec_strip_pth_def)
qed

lemma resume_epoch_spec: "resume_epoch rt (strip_pth restore) = Inr (spec_start_epoch rt restore)"
  by (auto simp: resume_epoch_def spec_start_epoch_def strip_pth_spec last_item_def
                 split_on_not_empty Let_def
           split: option.splits)

lemma start_epoch_spec: "start_epoch rt (Some restore) = spec_start_epoch rt restore"
  by (simp add: start_epoch_def resume_epoch_spec)

lemma start_epochs_all:
  "list_all (\<lambda>e. case e of FitOneCycle epochs lr tot_epochs epoch \<Rightarrow> Q epoch | _ \<Rightarrow> True) evs \<Longrightarrow>
   list_all Q (start_epochs evs)"
  by (induction evs rule: start_epochs.induct) simp_all

lemma restore_and_fit_loaded:
  assumes "raises rt (LearnerLoad (model_dir_of learn) (strip_pth restore)) = None"
  shows "restore_and_fit rt pindex params learn (Some restore) =
           (fst (fit rt params (start_epoch rt (Some restore))),
            LearnerLoad (model_dir_of learn) (strip_pth restore) #
            (if pindex = 0 then [Print (''Loaded model '' @ strip_pth restore @ ''.'')] else []) @
            snd (fit rt params (start_epoch rt (Some restore))))"
proof -
  obtain epoch where epoch: "resume_epoch rt (strip_pth restore) = Inr epoch"
    using resume_epoch_total by blast
  then have "start_epoch rt (Some restore) = epoch"
    by (simp add: start_epoch_def)
  with epoch show ?thesis
    by (simp add: restore_and_fit_def restore_model_loaded [OF assms] io_bind_def io_lift_def
             split: prod.splits)
qed

text \<open>
  C10. For a restore name, \<open>train_worker\<close> drops a trailing \<open>.pth\<close> and takes the
  resume epoch from the last path component split at underscores: one more than the
  second field when there are two fields and the second is an integer, and none
  otherwise. Every start epoch it hands to \<open>fit_one_cycle\<close> is that value.
\<close>

theorem start_epoch_from_restore_name:
  "strip_pth restore = spec_strip_pth restore
   \<and> resume_epoch rt (strip_pth restore) = Inr (spec_start_epoch rt restore)
   \<and> list_all (\<lambda>epoch. epoch = spec_start_epoch rt restore)
        (start_epochs
           (snd (train_worker rt getenv_rank pindex project_dir params comm_file checkpoint
                   (Some restore))))"
proof (intro conjI)
  show "strip_pth restore = spec_strip_pth restore"
    by (rule strip_pth_spec)
  show "resume_epoch rt (strip_pth restore) = Inr (spec_start_epoch rt restore)"
    by (rule resume_epoch_spec)
  let ?P = "\<lambda>e. case e of
              FitOneCycle epochs lr tot_epochs epoch \<Rightarrow> epoch = spec_start_epoch rt restore
            | _ \<Rightarrow> True"
  have other: "?P e" if "\<not> is_fit_one_cycle e" for e
    using that by (cases e) simp_all
  have "list_all ?P
          (snd (train_worker rt getenv_rank pindex project_dir params comm_file checkpoint
                  (Some restore)))"
    by (rule train_worker_events) (simp_all add: other start_epoch_spec)
  then show "list_all (\<lambda>epoch. epoch = spec_start_epoch rt restore)
        (start_epochs
           (snd (train_worker rt getenv_rank pindex project_dir params comm_file checkpoint
                   (Some restore))))"
    by (rule start_epochs_all)
qed

lemma sample_epochs:
  "spec_start_epoch plain_runtime ''run/model_12.pth'' = Some 13"
  "spec_start_epoch plain_runtime ''model.pth'' = None"
  "spec_start_epoch plain_runtime ''model_best'' = None"
  by code_simp+

lemma sample_train_restore:
  "start_epochs
     (snd (train_worker plain_runtime None 0 ''/proj'' (config_of two_gpus (PInt 64)) None PNone
             (Some restore))) = [spec_start_epoch plain_runtime restore]"
proof -
  have "raises plain_runtime
          (LearnerLoad (model_dir_of (Learner ''/proj/model/fr2en'')) (strip_pth restore)) = None"
    by (simp add: plain_runtime_def)
  then show ?thesis
    by (simp add: train_worker_trace sample_build restore_and_fit_loaded sample_fit
                  set_rank_def io_emit_def start_epoch_spec)
qed

theorem start_epoch_from_restore_name_witness:
  "spec_start_epoch plain_runtime ''run/model_12.pth'' = Some 13
   \<and> spec_start_epoch plain_runtime ''model.pth'' = None
   \<and> spec_start_epoch plain_runtime ''model_best'' = None
   \<and> resume_epoch plain_runtime (strip_pth ''run/model_12.pth'') = Inr (Some 13)
   \<and> start_epochs
        (snd (train_worker plain_runtime None 0 ''/proj'' (config_of two_gpus (PInt 64)) None PNone
                (Some ''run/model_12.pth''))) = [Some 13]"
  using start_epoch_from_restore_name
          [of "''run/model_12.pth''" plain_runtime None 0 "''/proj''"
              "config_of two_gpus (PInt 64)" None PNone, THEN conjunct2]
  by (simp add: sample_epochs sample_train_restore)

subsection \<open>Starting the training\<close>

lemma resolves_lookup:
  "\<not> missing params param \<Longrightarrow> \<exists>v. lookup_keys params (split_on CHR ''.'' param) = Inr v"
  using lookup_keys_cases [of params "split_on CHR ''.'' param"]
  by (auto simp: missing_def)

lemma fit_run:
  assumes "\<not> missing params ''optim.epochs''" and "\<not> missing params ''optim.lr''"
    and "raises rt (SetCallbacks [SaveModelCallback ''epoch'' ''model'']) = None"
  shows "\<exists>epochs lr.
           lookup_keys params [''optim'', ''epochs''] = Inr epochs \<and>
           lookup_keys params [''optim'', ''lr''] = Inr lr \<and>
           snd (fit rt params epoch) =
             [SetCallbacks [SaveModelCallback ''epoch'' ''model''],
              FitOneCycle epochs lr epochs epoch]"
proof -
  from assms(1) obtain epochs where epochs: "lookup_keys params [''optim'', ''epochs''] = Inr epochs"
    using resolves_lookup [of params "''optim.epochs''"] by auto
  from assms(2) obtain lr where lr: "lookup_keys params [''optim'', ''lr''] = Inr lr"
    using resolves_lookup [of params "''optim.lr''"] by auto
  have checked: "check_params params optim_params = Inr ()"
    using assms(1,2) by (simp add: check_params_find optim_params_def)
  have "snd (fit rt params epoch) =
          [SetCallbacks [SaveModelCallback ''epoch'' ''model''],
           FitOneCycle epochs lr epochs epoch]"
    using epochs lr checked assms(3)
    by (simp add: fit_def io_bind_def io_lift_def io_call_def del: lookup_keys.simps
             split: option.splits)
  with epochs lr show ?thesis by blast
qed

lemma restore_and_fit_run:
  assumes "case restore of
             None \<Rightarrow> True
           | Some restore0 \<Rightarrow>
               raises rt (LearnerLoad (model_dir_of learn) (strip_pth restore0)) = None"
  shows "\<exists>pre. snd (restore_and_fit rt pindex params learn restore) =
                 pre @ snd (fit rt params (start_epoch rt restore)) \<and>
               filter is_fit_one_cycle pre = []"
proof (cases restore)
  case None
  then have "snd (restore_and_fit rt pindex params learn restore) =
               [] @ snd (fit rt params (start_epoch rt restore))"
    by (simp add: restore_and_fit_def start_epoch_def)
  then show ?thesis by fastforce
next
  case (Some restore0)
  with assms have "raises rt (LearnerLoad (model_dir_of learn) (strip_pth restore0)) = None"
    by simp
  then have "snd (restore_and_fit rt pindex params learn restore) =
      (LearnerLoad (model_dir_of learn) (strip_pth restore0) #
       (if pindex = 0 then [Print (''Loaded model '' @ strip_pth restore0 @ ''.'')] else [])) @
      snd (fit rt params (start_epoch rt restore))"
    using Some by (simp add: restore_and_fit_loaded)
  moreover have "filter is_fit_one_cycle
      (LearnerLoad (model_dir_of learn) (strip_pth restore0) #
       (if pindex = 0 then [Print (''Loaded model '' @ strip_pth restore0 @ ''.'')] else [])) = []"
    by simp
  ultimately show ?thesis by blast
qed

text \<open>
  C5. When the learner was built, the checkpoint (if one is named) was loaded, the
  configuration has \<open>optim.epochs\<close> and \<open>optim.lr\<close> and registering the callback did
  not raise, \<open>train_worker\<close> ends by calling \<open>fit_one_cycle\<close>, once, with the
  configured number of epochs (also as the total), the configured learning rate and
  the start epoch of the restored checkpoint, which is \<open>None\<close> when nothing is
  restored.
\<close>

theorem train_worker_starts_one_cycle:
  assumes "fst (build_learner rt params project_dir pindex comm_file) = Inr learn"
    and "case restore of
           None \<Rightarrow> True
         | Some restore0 \<Rightarrow>
             raises rt (LearnerLoad (model_dir_of learn) (strip_pth restore0)) = None"
    and "\<not> missing params ''optim.epochs''" and "\<not> missing params ''optim.lr''"
    and "raises rt (SetCallbacks [SaveModelCallback ''epoch'' ''model'']) = None"
  shows "\<exists>epochs lr.
           lookup_keys params [''optim'', ''epochs''] = Inr epochs \<and>
           lookup_keys params [''optim'', ''lr''] = Inr lr \<and>
           filter is_fit_one_cycle
             (snd (train_worker rt getenv_rank pindex project_dir params comm_file checkpoint
                     restore)) =
             [FitOneCycle epochs lr epochs (start_epoch rt restore)] \<and>
           last (snd (train_worker rt getenv_rank pindex project_dir params comm_file checkpoint
                        restore)) =
             FitOneCycle epochs lr epochs (start_epoch rt restore) \<and>
           start_epoch rt None = None"
proof -
  obtain epochs lr where optim:
      "lookup_keys params [''optim'', ''epochs''] = Inr epochs"
      "lookup_keys params [''optim'', ''lr''] = Inr lr"
      "snd (fit rt params (start_epoch rt restore)) =
         [SetCallbacks [SaveModelCallback ''epoch'' ''model''],
          FitOneCycle epochs lr epochs (start_epoch rt restore)]"
    using fit_run [OF assms(3,4,5)] by blast
  obtain pre where pre:
      "snd (restore_and_fit rt pindex params learn restore) =
         pre @ snd (fit rt params (start_epoch rt restore))"
      "filter is_fit_one_cycle pre = []"
    using restore_and_fit_run [OF assms(2)] by blast
  have rank: "filter is_fit_one_cycle (snd (set_rank getenv_rank pindex)) = []"
    by (intro filter_none set_rank_events) simp
  have build:
    "filter is_fit_one_cycle (snd (build_learner rt params project_dir pindex comm_file)) = []"
    using build_learner_no_training [of rt params project_dir pindex comm_file]
    by (intro filter_none) (simp add: list_all_iff)
  have trace:
    "snd (train_worker rt getenv_rank pindex project_dir params comm_file checkpoint restore) =
       snd (set_rank getenv_rank pindex) @
       snd (build_learner rt params project_dir pindex comm_file) @
       pre @
       [SetCallbacks [SaveModelCallback ''epoch'' ''model''],
        FitOneCycle epochs lr epochs (start_epoch rt restore)]"
    using assms(1) pre(1) optim(3) by (simp add: train_worker_trace)
  have "filter is_fit_one_cycle
          (snd (train_worker rt getenv_rank pindex project_dir params comm_file checkpoint
                  restore)) =
        [FitOneCycle epochs lr epochs (start_epoch rt restore)]"
    unfolding trace using rank build pre(2) by simp
  moreover have "last (snd (train_worker rt getenv_rank pindex project_dir params comm_file
                              checkpoint restore)) =
        FitOneCycle epochs lr epochs (start_epoch rt restore)"
    unfolding trace by simp
  moreover have "start_epoch rt None = None"
    by (simp add: start_epoch_def)
  ultimately show ?thesis
    using optim(1,2) by blast
qed

lemma sample_optim:
  "\<not> missing (config_of gpu_ids batch_size) ''optim.epochs''"
  "\<not> missing (config_of gpu_ids batch_size) ''optim.lr''"
  "lookup_keys (config_of gpu_ids batch_size) [''optim'', ''epochs''] = Inr (PInt 10)"
  "lookup_keys (config_of gpu_ids batch_size) [''optim'', ''lr''] = Inr (PInt 1)"
  by (simp_all add: missing_def config_of_def)

theorem train_worker_starts_one_cycle_witness:
  "fst (build_learner plain_runtime (config_of two_gpus (PInt 64)) ''/proj'' 0 None) =
     Inr (Learner ''/proj/model/fr2en'')
   \<and> raises plain_runtime (LearnerLoad ''/proj/model/fr2en'' (strip_pth ''model_3.pth'')) = None
   \<and> lookup_keys (config_of two_gpus (PInt 64)) [''optim'', ''epochs''] = Inr (PInt 10)
   \<and> lookup_keys (config_of two_gpus (PInt 64)) [''optim'', ''lr''] = Inr (PInt 1)
   \<and> filter is_fit_one_cycle
        (snd (train_worker plain_runtime None 0 ''/proj'' (config_of two_gpus (PInt 64)) None PNone
                None)) = [FitOneCycle (PInt 10) (PInt 1) (PInt 10) None]
   \<and> last (snd (train_worker plain_runtime None 0 ''/proj'' (config_of two_gpus (PInt 64)) None
                  PNone (Some ''model_3.pth''))) =
       FitOneCycle (PInt 10) (PInt 1) (PInt 10) (start_epoch plain_runtime (Some ''model_3.pth''))
   \<and> start_epoch plain_runtime (Some ''model_3.pth'') = Some 4"
proof -
  have built:
    "fst (build_learner plain_runtime (config_of two_gpus (PInt 64)) ''/proj'' 0 None) =
       Inr (Learner ''/proj/model/fr2en'')"
    by (simp add: sample_build)
  have quiet: "raises plain_runtime ev = None" for ev
    by (simp add: plain_runtime_def)
  have fresh: "case None :: string option of
                 None \<Rightarrow> True
               | Some restore0 \<Rightarrow>
                   raises plain_runtime
                     (LearnerLoad (model_dir_of (Learner ''/proj/model/fr2en''))
                        (strip_pth restore0)) = None"
    by simp
  have resumed: "case Some ''model_3.pth'' of
                 None \<Rightarrow> True
               | Some restore0 \<Rightarrow>
                   raises plain_runtime
                     (LearnerLoad (model_dir_of (Learner ''/proj/model/fr2en''))
                        (strip_pth restore0)) = None"
    by (simp add: quiet)
  have epoch: "start_epoch plain_runtime (Some ''model_3.pth'') = Some 4"
    by code_simp
  show ?thesis
    using train_worker_starts_one_cycle
            [OF built fresh sample_optim(1) sample_optim(2) quiet, of None PNone]
          train_worker_starts_one_cycle
            [OF built resumed sample_optim(1) sample_optim(2) quiet, of None PNone]
          built quiet epoch
    by (auto simp: sample_optim(3,4) simp del: lookup_keys.simps)
qed

subsection \<open>A GPU requested without CUDA\<close>




end
